theory Spec2Isabelle
  imports Complex_Main
begin

section \<open>The DateTimeFilter connector plug-in\<close>

text \<open>
  The development embeds \<^verbatim>\<open>GeoEDF/connector/filter/DateTimeFilter.py\<close>: the class
  \<^verbatim>\<open>DateTimeFilter\<close> with its constructor and its method \<^verbatim>\<open>filter\<close>. The method
  calls into Python's built-ins and into pandas (\<^verbatim>\<open>pd.to_datetime\<close>,
  \<^verbatim>\<open>Timestamp.strftime\<close>, \<^verbatim>\<open>pd.date_range\<close>). Those calls are modelled on the
  inputs this plug-in can hand them and where their result is fixed by the library's
  documented algorithm; every other input is passed to a \<open>library\<close> parameter, about
  which nothing is assumed, so that a theorem with a free \<open>lib\<close> holds for whatever
  the installed library does there. The pandas modelled is one whose \<^verbatim>\<open>Timestamp\<close> has
  nanosecond resolution (releases 1 and 2).

  Strings are lists of 8-bit characters, read as code points below 256.
\<close>

subsection \<open>Exceptions and the plug-in's error\<close>

text \<open>
  The Python exceptions that the two \<^verbatim>\<open>try\<close> blocks of \<^verbatim>\<open>filter\<close> tell apart:
  \<^verbatim>\<open>ValueError\<close> (with its subclasses, such as pandas' out-of-bounds error) and
  everything else.
\<close>

datatype exn = ValueError | TypeError | ZeroDivisionError | OtherException

text \<open>
  Every failure leaves the plug-in as a \<^verbatim>\<open>GeoEDFError\<close>; the constructors are the
  messages of the source:
  \<^item> \<open>RequiredParameter p\<close>: "Required parameter p for DateTimeFilter not provided";
  \<^item> \<open>PeriodRequired\<close>: "Period is required for DateTimeFilter when both start and
    end are provided.";
  \<^item> \<open>InvalidDatesDetail\<close>, \<open>InvalidDates\<close>: "Invalid values provided for start or
    end date to DateTimeFilter", with and without the text of the exception;
  \<^item> \<open>ErrorApplying\<close>: "Error applying DateTimeFilter : ...";
  \<^item> \<open>UnknownErrorApplying\<close>: "Unknown error applying DateTimeFilter".
\<close>

datatype GeoEDFError =
    RequiredParameter string
  | PeriodRequired
  | InvalidDatesDetail
  | InvalidDates
  | ErrorApplying
  | UnknownErrorApplying

subsection \<open>Characters, decimal numerals and Python's \<open>int\<close>\<close>

definition is_digit :: "char \<Rightarrow> bool" where
  "is_digit c = (c \<in> set ''0123456789'')"

text \<open>The code points below 256 for which \<^verbatim>\<open>str.isspace\<close> holds.\<close>

definition is_space :: "char \<Rightarrow> bool" where
  "is_space c = (c \<in> set [CHR 0x09, CHR 0x0A, CHR 0x0B, CHR 0x0C, CHR 0x0D, CHR 0x1C,
     CHR 0x1D, CHR 0x1E, CHR 0x1F, CHR '' '', CHR 0x85, CHR 0xA0])"

text \<open>The value of a decimal digit: its code point counted from that of \<^verbatim>\<open>0\<close>, 48.\<close>

definition digit_val :: "char \<Rightarrow> nat" where
  "digit_val c = of_char c - 48"

definition digit_char :: "nat \<Rightarrow> char" where
  "digit_char n = ''0123456789'' ! (n mod 10)"

definition dec_val :: "string \<Rightarrow> nat" where
  "dec_val s = foldl (\<lambda>a c. 10 * a + digit_val c) 0 s"

fun dec :: "nat \<Rightarrow> string" where
  "dec n = (if n < 10 then [digit_char n] else dec (n div 10) @ [digit_char (n mod 10)])"

declare dec.simps [simp del]

text \<open>Zero-padding to a width, as the C library's \<^verbatim>\<open>%02d\<close> family does.\<close>

definition pad :: "nat \<Rightarrow> nat \<Rightarrow> string" where
  "pad w n = replicate (w - length (dec n)) (CHR ''0'') @ dec n"

text \<open>\<^verbatim>\<open>'%d' % n\<close> for a Python integer.\<close>

definition str_of_int :: "int \<Rightarrow> string" where
  "str_of_int n = (if n < 0 then CHR ''-'' # dec (nat (- n)) else dec (nat n))"

text \<open>The slices \<^verbatim>\<open>s[-1:]\<close> and \<^verbatim>\<open>s[:-1]\<close> of a string.\<close>

definition last_slice :: "string \<Rightarrow> string" where
  "last_slice s = (if s = [] then [] else [last s])"

definition but_last_slice :: "string \<Rightarrow> string" where
  "but_last_slice s = butlast s"

text \<open>
  The code points below 256 that \<^verbatim>\<open>int\<close> skips around a literal: the white space of the
  C locale and the two spaces above 127, U+0085 and U+00A0. The separators U+001C to
  U+001F are not among them, although \<^verbatim>\<open>str.isspace\<close> holds for them.
\<close>

definition is_int_space :: "char \<Rightarrow> bool" where
  "is_int_space c = (c \<in> set [CHR 0x09, CHR 0x0A, CHR 0x0B, CHR 0x0C, CHR 0x0D, CHR '' '',
     CHR 0x85, CHR 0xA0])"

definition strip :: "string \<Rightarrow> string" where
  "strip s = rev (dropWhile is_int_space (rev (dropWhile is_int_space s)))"

text \<open>
  The digits of a decimal literal \<^verbatim>\<open>digit (_? digit)*\<close>, without the underscores;
  \<open>None\<close> when the text is not such a literal.
\<close>

fun digit_groups :: "string \<Rightarrow> string option" where
  "digit_groups [] = None"
| "digit_groups [c] = (if is_digit c then Some [c] else None)"
| "digit_groups (c # u # cs) =
     (if \<not> is_digit c then None
      else if u = CHR ''_'' then map_option ((#) c) (digit_groups cs)
      else map_option ((#) c) (digit_groups (u # cs)))"

text \<open>
  \<^verbatim>\<open>int(s)\<close> for a string: the white space around it is dropped, one sign is allowed,
  the rest is a decimal literal. \<open>max_digits\<close> is the interpreter's
  \<^verbatim>\<open>sys.get_int_max_str_digits()\<close> (0 for no limit; 4300 by default where the limit
  exists), which applies to literals of more than 640 digits.
\<close>

definition py_int :: "nat \<Rightarrow> string \<Rightarrow> exn + int" where
  "py_int max_digits s =
     (let t = strip s;
          neg = (t \<noteq> [] \<and> hd t = CHR ''-'');
          body = (if t \<noteq> [] \<and> (hd t = CHR ''-'' \<or> hd t = CHR ''+'') then tl t else t)
      in case digit_groups body of
           None \<Rightarrow> Inl ValueError
         | Some ds \<Rightarrow>
             if 640 < length ds \<and> 0 < max_digits \<and> max_digits < length ds then Inl ValueError
             else Inr (if neg then - int (dec_val ds) else int (dec_val ds)))"

text \<open>
  \<^verbatim>\<open>math.ceil(a / n)\<close> for Python integers \<open>0 \<le> a \<le> 365\<close> and \<open>n > 0\<close>, the only
  arguments \<^verbatim>\<open>filter\<close> reaches it with. The quotient \<^verbatim>\<open>a / n\<close> is the exact quotient
  rounded to the nearest double. It is \<open>0.0\<close> exactly when the exact quotient is at
  most \<open>2\<^sup>-\<^sup>1\<^sup>0\<^sup>7\<^sup>5\<close>, half of the least positive double. Otherwise it is positive, and as
  \<open>a \<le> 365\<close> it lies strictly between two neighbouring integers whenever the exact
  quotient does (its distance to an integer \<open>k\<close> is at least \<open>1/n\<close>, far more than the
  rounding error), so the ceiling of the double is the ceiling of the exact quotient.
\<close>

definition ceil_truediv :: "int \<Rightarrow> int \<Rightarrow> int" where
  "ceil_truediv a n = (if a * 2 ^ 1075 \<le> n then 0 else - ((- a) div n))"

subsection \<open>The proleptic Gregorian calendar\<close>

definition is_leap :: "nat \<Rightarrow> bool" where
  "is_leap y = (y mod 4 = 0 \<and> (y mod 400 = 0 \<or> y mod 100 \<noteq> 0))"

definition days_in_month :: "nat \<Rightarrow> nat \<Rightarrow> nat" where
  "days_in_month y m =
     (if m = 2 then (if is_leap y then 29 else 28)
      else if m = 4 \<or> m = 6 \<or> m = 9 \<or> m = 11 then 30 else 31)"

definition days_in_year :: "nat \<Rightarrow> nat" where
  "days_in_year y = (if is_leap y then 366 else 365)"

definition days_before_month :: "nat \<Rightarrow> nat \<Rightarrow> nat" where
  "days_before_month y m = sum_list (map (days_in_month y) [1..<m])"

definition days_before_year :: "nat \<Rightarrow> nat" where
  "days_before_year y =
     (y - 1) * 365 + (y - 1) div 4 + (y - 1) div 400 - (y - 1) div 100"

text \<open>\<^verbatim>\<open>date(y, m, d)\<close> exists for these arguments only; otherwise it raises.\<close>

definition valid_date :: "nat \<Rightarrow> nat \<Rightarrow> nat \<Rightarrow> bool" where
  "valid_date y m d =
     (1 \<le> y \<and> y \<le> 9999 \<and> 1 \<le> m \<and> m \<le> 12 \<and> 1 \<le> d \<and> d \<le> days_in_month y m)"

text \<open>\<^verbatim>\<open>date(y, m, d).toordinal()\<close>: day 1 is 0001-01-01.\<close>

definition toordinal :: "nat \<Rightarrow> nat \<Rightarrow> nat \<Rightarrow> nat" where
  "toordinal y m d = days_before_year y + days_before_month y m + d"

text \<open>The 1-based day of the year, which \<^verbatim>\<open>%j\<close> prints.\<close>

definition day_of_year :: "nat \<Rightarrow> nat \<Rightarrow> nat \<Rightarrow> nat" where
  "day_of_year y m d = days_before_month y m + d"

definition next_day :: "nat \<times> nat \<times> nat \<Rightarrow> nat \<times> nat \<times> nat" where
  "next_day = (\<lambda>(y, m, d).
     if d < days_in_month y m then (y, m, d + 1)
     else if m < 12 then (y, m + 1, 1)
     else (y + 1, 1, 1))"

text \<open>The date \<open>k\<close> days after a date: \<^verbatim>\<open>date.fromordinal(date.toordinal() + k)\<close>.\<close>

definition add_days :: "nat \<Rightarrow> nat \<times> nat \<times> nat \<Rightarrow> nat \<times> nat \<times> nat" where
  "add_days k ymd = (next_day ^^ k) ymd"

text \<open>
  \<^verbatim>\<open>date.fromordinal((j - 1) + date(y, 1, 1).toordinal())\<close>: day \<open>j\<close> counted from
  January 1st of \<open>y\<close>, running on into the next year when \<open>j\<close> is past the year's end.
\<close>

definition from_julian :: "nat \<Rightarrow> nat \<Rightarrow> nat \<times> nat \<times> nat" where
  "from_julian y j = add_days (j - 1) (y, 1, 1)"

subsection \<open>pandas time stamps\<close>

text \<open>
  A \<^verbatim>\<open>Timestamp\<close> to the second: this plug-in's formats read no fraction of a second
  and no time zone, and stepping by days keeps the time of day. \<^verbatim>\<open>NaT\<close> is pandas'
  missing time stamp.
\<close>

record timestamp =
  year :: nat
  month :: nat
  day :: nat
  hour :: nat
  minute :: nat
  second :: nat

datatype moment = NaT | Timestamp timestamp

definition midnight :: "nat \<times> nat \<times> nat \<Rightarrow> timestamp" where
  "midnight = (\<lambda>(y, m, d).
     \<lparr>year = y, month = m, day = d, hour = 0, minute = 0, second = 0\<rparr>)"

text \<open>
  Seconds on a linear scale, for the length of a range (pandas counts nanoseconds from
  1970; differences agree).
\<close>

definition ts_value :: "timestamp \<Rightarrow> nat" where
  "ts_value t =
     toordinal (year t) (month t) (day t) * 86400 + hour t * 3600 + minute t * 60 + second t"

text \<open>
  The range of a nanosecond-resolution \<^verbatim>\<open>Timestamp\<close>, whose ends are
  1677-09-21 00:12:43.145224193 and 2262-04-11 23:47:16.854775807; for whole seconds:
\<close>

definition ts_min :: timestamp where
  "ts_min = \<lparr>year = 1677, month = 9, day = 21, hour = 0, minute = 12, second = 44\<rparr>"

definition ts_max :: timestamp where
  "ts_max = \<lparr>year = 2262, month = 4, day = 11, hour = 23, minute = 47, second = 16\<rparr>"

text \<open>The bounds check compares the fields in order, from the year down to the second.\<close>

definition ts_le :: "timestamp \<Rightarrow> timestamp \<Rightarrow> bool" where
  "ts_le a b =
     (if year a \<noteq> year b then year a < year b
      else if month a \<noteq> month b then month a < month b
      else if day a \<noteq> day b then day a < day b
      else if hour a \<noteq> hour b then hour a < hour b
      else if minute a \<noteq> minute b then minute a < minute b
      else second a \<le> second b)"

definition in_bounds :: "timestamp \<Rightarrow> bool" where
  "in_bounds t = (ts_le ts_min t \<and> ts_le t ts_max)"

text \<open>
  What the plug-in takes from its environment. \<open>lib_to_datetime\<close>, \<open>lib_strftime\<close>
  and \<open>lib_date_range\<close> stand for the pandas calls on the inputs the models below do
  not cover; \<open>int_max_str_digits\<close> is the interpreter's limit on integer literals.
\<close>

record library =
  lib_to_datetime :: "string \<Rightarrow> string \<Rightarrow> exn + moment"
  lib_strftime :: "timestamp \<Rightarrow> string \<Rightarrow> exn + string"
  lib_date_range :: "moment \<Rightarrow> moment \<Rightarrow> string option \<Rightarrow> exn + moment list"
  int_max_str_digits :: nat

subsection \<open>\<^verbatim>\<open>strftime\<close>\<close>

text \<open>
  The directives with a fixed numeric meaning: \<^verbatim>\<open>%Y %m %d %H %M %S %j\<close> and \<^verbatim>\<open>%%\<close>.
\<close>

definition std_directive :: "timestamp \<Rightarrow> char \<Rightarrow> string option" where
  "std_directive t c =
     (if c = CHR ''Y'' then Some (pad 4 (year t))
      else if c = CHR ''m'' then Some (pad 2 (month t))
      else if c = CHR ''d'' then Some (pad 2 (day t))
      else if c = CHR ''H'' then Some (pad 2 (hour t))
      else if c = CHR ''M'' then Some (pad 2 (minute t))
      else if c = CHR ''S'' then Some (pad 2 (second t))
      else if c = CHR ''j'' then Some (pad 3 (day_of_year (year t) (month t) (day t)))
      else if c = CHR ''%'' then Some ''%''
      else None)"

text \<open>
  A pattern made of those directives and of ASCII characters other than NUL is
  expanded here; \<open>None\<close> for any other pattern.
\<close>

fun std_strftime :: "timestamp \<Rightarrow> string \<Rightarrow> string option" where
  "std_strftime t [] = Some []"
| "std_strftime t [c] =
     (if c = CHR ''%'' \<or> c = CHR 0x00 \<or> \<not> (of_char c < (128::nat)) then None else Some [c])"
| "std_strftime t (c # c' # cs) =
     (if c = CHR ''%'' then
        (case std_directive t c' of
           None \<Rightarrow> None
         | Some x \<Rightarrow> map_option ((@) x) (std_strftime t cs))
      else if c = CHR 0x00 \<or> \<not> (of_char c < (128::nat)) then None
      else map_option ((#) c) (std_strftime t (c' # cs)))"

text \<open>\<^verbatim>\<open>dt.strftime(pattern)\<close>; \<^verbatim>\<open>NaT.strftime\<close> raises \<^verbatim>\<open>ValueError\<close>.\<close>

definition strftime :: "library \<Rightarrow> moment \<Rightarrow> string \<Rightarrow> exn + string" where
  "strftime lib dt pat =
     (case dt of
        NaT \<Rightarrow> Inl ValueError
      | Timestamp t \<Rightarrow>
          (case std_strftime t pat of
             Some s \<Rightarrow> Inr s
           | None \<Rightarrow> lib_strftime lib t pat))"

subsection \<open>\<^verbatim>\<open>pd.to_datetime\<close> with a format\<close>

text \<open>
  With a \<^verbatim>\<open>format\<close> that is not ISO 8601, \<^verbatim>\<open>to_datetime\<close> parses as \<^verbatim>\<open>strptime\<close>
  does: the format becomes a regular expression, a directive becoming a group of
  ordered alternatives, a run of white space becoming \<^verbatim>\<open>\s+\<close>; the expression must
  match at the start of the string and the match must consume all of it.
\<close>

datatype item = Lit char | Spaces | Dir char

text \<open>
  The groups of the directives used here, each alternative a list of character
  classes, in the order of the library's table:
  \<^verbatim>\<open>d: 3[0-1]|[1-2]\d|0[1-9]|[1-9]| [1-9]\<close>,
  \<^verbatim>\<open>m: 1[0-2]|0[1-9]|[1-9]\<close>,
  \<^verbatim>\<open>Y: \d\d\d\d\<close>,
  \<^verbatim>\<open>H: 2[0-3]|[0-1]\d|\d\<close>,
  \<^verbatim>\<open>M: [0-5]\d|\d\<close>,
  \<^verbatim>\<open>S: 6[0-1]|[0-5]\d|\d\<close>,
  \<^verbatim>\<open>j: 36[0-6]|3[0-5]\d|[1-2]\d\d|0[1-9]\d|00[1-9]|[1-9]\d|0[1-9]|[1-9]\<close>.
\<close>

definition dir_alts :: "char \<Rightarrow> string list list option" where
  "dir_alts c =
     (if c = CHR ''d'' then Some [[''3'', ''01''], [''12'', ''0123456789''],
          [''0'', ''123456789''], [''123456789''], ['' '', ''123456789'']]
      else if c = CHR ''m'' then Some [[''1'', ''012''], [''0'', ''123456789''], [''123456789'']]
      else if c = CHR ''Y'' then Some [[''0123456789'', ''0123456789'', ''0123456789'',
          ''0123456789'']]
      else if c = CHR ''H'' then Some [[''2'', ''0123''], [''01'', ''0123456789''],
          [''0123456789'']]
      else if c = CHR ''M'' then Some [[''012345'', ''0123456789''], [''0123456789'']]
      else if c = CHR ''S'' then Some [[''6'', ''01''], [''012345'', ''0123456789''],
          [''0123456789'']]
      else if c = CHR ''j'' then Some [[''3'', ''6'', ''0123456''], [''3'', ''012345'',
          ''0123456789''], [''12'', ''0123456789'', ''0123456789''], [''0'', ''123456789'',
          ''0123456789''], [''0'', ''0'', ''123456789''], [''123456789'', ''0123456789''],
          [''0'', ''123456789''], [''123456789'']]
      else None)"

text \<open>
  The expression of a format; \<open>None\<close> for a format outside the model: a directive
  that is not in the table, or a literal character other than \<^verbatim>\<open>/\<close> and \<^verbatim>\<open>:\<close>.
\<close>

fun compile_format :: "string \<Rightarrow> item list option" where
  "compile_format [] = Some []"
| "compile_format [c] =
     (if is_space c then Some [Spaces]
      else if c = CHR ''/'' \<or> c = CHR '':'' then Some [Lit c] else None)"
| "compile_format (c # c' # cs) =
     (if c = CHR ''%'' then
        (if dir_alts c' = None then None
         else map_option ((#) (Dir c')) (compile_format cs))
      else if is_space c then
        (case compile_format (c' # cs) of
           None \<Rightarrow> None
         | Some [] \<Rightarrow> Some [Spaces]
         | Some (i # is) \<Rightarrow> if i = Spaces then Some (i # is) else Some (Spaces # i # is))
      else if c = CHR ''/'' \<or> c = CHR '':'' then map_option ((#) (Lit c)) (compile_format (c' # cs))
      else None)"

text \<open>One alternative against the start of a string: the matched text and the rest.\<close>

fun match_alt :: "string list \<Rightarrow> string \<Rightarrow> (string \<times> string) option" where
  "match_alt [] s = Some ([], s)"
| "match_alt (cls # alt) [] = None"
| "match_alt (cls # alt) (c # s) =
     (if c \<in> set cls then map_option (\<lambda>(t, r). (c # t, r)) (match_alt alt s) else None)"

primrec first_some :: "'a option list \<Rightarrow> 'a option" where
  "first_some [] = None"
| "first_some (x # xs) = (case x of Some y \<Rightarrow> Some y | None \<Rightarrow> first_some xs)"

text \<open>
  Backtracking matching: the alternatives of a group are tried in order and \<^verbatim>\<open>\s+\<close>
  is greedy, each with the rest of the expression as its continuation. The result is
  the text of every group and the unmatched rest of the string.
\<close>

fun match_items :: "item list \<Rightarrow> string \<Rightarrow> (char \<times> string) list \<Rightarrow>
    ((char \<times> string) list \<times> string) option" where
  "match_items [] s g = Some (g, s)"
| "match_items (Lit c # its) s g =
     (case s of [] \<Rightarrow> None | x # xs \<Rightarrow> if x = c then match_items its xs g else None)"
| "match_items (Spaces # its) s g =
     first_some (map (\<lambda>k. match_items its (drop k s) g)
       (rev [1..<Suc (length (takeWhile is_space s))]))"
| "match_items (Dir d # its) s g =
     first_some (map (\<lambda>alt.
         case match_alt alt s of
           None \<Rightarrow> None
         | Some (t, r) \<Rightarrow> match_items its r (g @ [(d, t)]))
       (case dir_alts d of None \<Rightarrow> [] | Some alts \<Rightarrow> alts))"

declare match_items.simps [simp del]

text \<open>
  The fields \<^verbatim>\<open>strptime\<close> fills from the groups, with its defaults: 1900-01-01
  00:00:00 and no day of the year.
\<close>

record fields =
  f_year :: nat
  f_month :: nat
  f_day :: nat
  f_hour :: nat
  f_minute :: nat
  f_second :: nat
  f_julian :: "nat option"

definition default_fields :: fields where
  "default_fields = \<lparr>f_year = 1900, f_month = 1, f_day = 1, f_hour = 0, f_minute = 0,
     f_second = 0, f_julian = None\<rparr>"

text \<open>\<^verbatim>\<open>int\<close> of a group's text (the text \<^verbatim>\<open>" 7"\<close> of a day reads as 7).\<close>

definition group_int :: "string \<Rightarrow> nat" where
  "group_int t = dec_val (filter is_digit t)"

definition set_field :: "char \<times> string \<Rightarrow> fields \<Rightarrow> fields" where
  "set_field = (\<lambda>(d, t) f.
     if d = CHR ''Y'' then f\<lparr>f_year := group_int t\<rparr>
     else if d = CHR ''m'' then f\<lparr>f_month := group_int t\<rparr>
     else if d = CHR ''d'' then f\<lparr>f_day := group_int t\<rparr>
     else if d = CHR ''H'' then f\<lparr>f_hour := group_int t\<rparr>
     else if d = CHR ''M'' then f\<lparr>f_minute := group_int t\<rparr>
     else if d = CHR ''S'' then f\<lparr>f_second := group_int t\<rparr>
     else if d = CHR ''j'' then f\<lparr>f_julian := Some (group_int t)\<rparr>
     else f)"

text \<open>
  The calendar date of the fields. Without a day of the year, \<^verbatim>\<open>date(year, month, day)\<close>
  must exist. With one, the date is counted on from January 1st of the year, which
  must exist as a date, and the day is not checked against the length of the year.
\<close>

definition fields_date :: "fields \<Rightarrow> exn + nat \<times> nat \<times> nat" where
  "fields_date f =
     (case f_julian f of
        None \<Rightarrow>
          if valid_date (f_year f) (f_month f) (f_day f)
          then Inr (f_year f, f_month f, f_day f) else Inl ValueError
      | Some j \<Rightarrow>
          if 1 \<le> f_year f \<and> f_year f \<le> 9999 \<and> fst (from_julian (f_year f) j) \<le> 9999
          then Inr (from_julian (f_year f) j) else Inl ValueError)"

text \<open>
  The strings pandas reads as a missing value before it looks at the format.
\<close>

definition nat_strings :: "string list" where
  "nat_strings = ['''', ''NaT'', ''nat'', ''NAT'', ''nan'', ''NaN'', ''NAN'']"

text \<open>
  The fields of a string that matches a format of the model in full; \<open>None\<close> when
  the expression does not match at the start of the string, or the match leaves
  unconverted data.
\<close>

definition parse_fields :: "string \<Rightarrow> string \<Rightarrow> fields option" where
  "parse_fields fmt s =
     (case compile_format fmt of
        None \<Rightarrow> None
      | Some its \<Rightarrow>
          (case match_items its s [] of
             None \<Rightarrow> None
           | Some (g, rest) \<Rightarrow>
               if rest \<noteq> [] then None else Some (fold set_field g default_fields)))"

definition fields_timestamp :: "fields \<Rightarrow> nat \<times> nat \<times> nat \<Rightarrow> timestamp" where
  "fields_timestamp f ymd =
     (midnight ymd)\<lparr>hour := f_hour f, minute := f_minute f, second := f_second f\<rparr>"

text \<open>
  \<^verbatim>\<open>pd.to_datetime(s, format=fmt)\<close> for a string \<open>s\<close>. Every failure is a
  \<^verbatim>\<open>ValueError\<close>: no match, unconverted data after the match, a date that does not
  exist, a time stamp out of bounds. Left to the library: the missing-value strings,
  a format outside the model, and a matched second of 60 or 61.
\<close>

definition to_datetime :: "library \<Rightarrow> string \<Rightarrow> string \<Rightarrow> exn + moment" where
  "to_datetime lib s fmt =
     (if s \<in> set nat_strings \<or> compile_format fmt = None then lib_to_datetime lib s fmt
      else case parse_fields fmt s of
        None \<Rightarrow> Inl ValueError
      | Some f \<Rightarrow>
          if 60 \<le> f_second f then lib_to_datetime lib s fmt
          else case fields_date f of
            Inl e \<Rightarrow> Inl e
          | Inr ymd \<Rightarrow>
              if in_bounds (fields_timestamp f ymd) then Inr (Timestamp (fields_timestamp f ymd))
              else Inl ValueError)"

subsection \<open>\<^verbatim>\<open>pd.date_range\<close>\<close>

text \<open>
  A frequency that is a plain count of days: decimal digits and then \<^verbatim>\<open>D\<close> (or
  \<^verbatim>\<open>d\<close>, which pandas reads as \<^verbatim>\<open>D\<close>), the count at least 1 and at most 106751, the
  longest span a nanosecond \<^verbatim>\<open>Timedelta\<close> holds.
\<close>

definition day_freq :: "string \<Rightarrow> nat option" where
  "day_freq f =
     (if f \<noteq> [] \<and> (last f = CHR ''D'' \<or> last f = CHR ''d'') \<and> butlast f \<noteq> [] \<and>
         list_all is_digit (butlast f) \<and> 1 \<le> dec_val (butlast f) \<and>
         dec_val (butlast f) \<le> 106751
      then Some (dec_val (butlast f)) else None)"

definition plus_days :: "nat \<Rightarrow> timestamp \<Rightarrow> timestamp" where
  "plus_days k t =
     (midnight (add_days k (year t, month t, day t)))\<lparr>hour := hour t, minute := minute t,
        second := second t\<rparr>"

text \<open>
  The regular range of a fixed step: \<open>start\<close>, \<open>start + step\<close>, ... up to the last one
  that is not after \<open>end\<close>; empty when \<open>end\<close> is before \<open>start\<close>.
\<close>

definition day_steps :: "timestamp \<Rightarrow> timestamp \<Rightarrow> nat \<Rightarrow> timestamp list" where
  "day_steps s e n =
     (if ts_value e < ts_value s then []
      else map (\<lambda>i. plus_days (i * n) s) [0..<Suc ((ts_value e - ts_value s) div (n * 86400))])"

text \<open>
  \<^verbatim>\<open>pd.date_range(start=start, end=end, freq=freq)\<close>; modelled for two time stamps and
  a plain count of days, left to the library otherwise.
\<close>

definition date_range :: "library \<Rightarrow> moment \<Rightarrow> moment \<Rightarrow> string option \<Rightarrow> exn + moment list" where
  "date_range lib start_date end_date freq =
     (case (start_date, end_date, freq) of
        (Timestamp s, Timestamp e, Some f) \<Rightarrow>
          (case day_freq f of
             Some n \<Rightarrow> Inr (map Timestamp (day_steps s e n))
           | None \<Rightarrow> lib_date_range lib start_date end_date freq)
      | _ \<Rightarrow> lib_date_range lib start_date end_date freq)"

subsection \<open>The class \<^verbatim>\<open>DateTimeFilter\<close>\<close>

text \<open>
  The keyword arguments of the constructor. \<open>None\<close> is a keyword that was not given
  (\<^verbatim>\<open>param not in kwargs\<close>); the strings and flags are typed, so a keyword given with
  the value \<^verbatim>\<open>None\<close> or with a value of another type is outside the model.
\<close>

record kwargs =
  kw_pattern :: "string option"
  kw_start :: "string option"
  kw_end :: "string option"
  kw_period :: "string option"
  kw_has_time :: "bool option"
  kw_exact_dates :: "bool option"

text \<open>The attributes of an instance; \<open>values'\<close> is the list \<^verbatim>\<open>self.values\<close>.\<close>

record DateTimeFilter =
  pattern :: string
  start :: string
  end' :: "string option"
  period :: "string option"
  has_time :: bool
  exact_dates :: bool
  values' :: "string list"

text \<open>
  \<^verbatim>\<open>__init__\<close>: the required parameters are checked in the order
  \<^verbatim>\<open>['pattern','start']\<close>, then the period that an end requires; the attributes are
  set, the two flags default to \<^verbatim>\<open>False\<close>, and \<^verbatim>\<open>values\<close> starts empty. (The
  constructor of the framework's super class, called last, is not part of this
  repository and is taken to leave these attributes alone.)
\<close>

definition DateTimeFilter_init :: "kwargs \<Rightarrow> GeoEDFError + DateTimeFilter" where
  "DateTimeFilter_init kw =
     (case kw_pattern kw of
        None \<Rightarrow> Inl (RequiredParameter ''pattern'')
      | Some p \<Rightarrow>
          (case kw_start kw of
             None \<Rightarrow> Inl (RequiredParameter ''start'')
           | Some s \<Rightarrow>
               if kw_end kw \<noteq> None \<and> kw_period kw = None then Inl PeriodRequired
               else Inr \<lparr>pattern = p, start = s, end' = kw_end kw, period = kw_period kw,
                         has_time = (case kw_has_time kw of None \<Rightarrow> False | Some b \<Rightarrow> b),
                         exact_dates = (case kw_exact_dates kw of None \<Rightarrow> False | Some b \<Rightarrow> b),
                         values' = []\<rparr>))"

subsection \<open>The method \<^verbatim>\<open>filter\<close>\<close>

definition date_format :: "bool \<Rightarrow> string" where
  "date_format with_time = (if with_time then ''%m/%d/%Y %H:%M:%S'' else ''%m/%d/%Y'')"

text \<open>
  The body of the first \<^verbatim>\<open>try\<close>: \<^verbatim>\<open>start\<close> is parsed, and \<^verbatim>\<open>end\<close> when it is not
  \<^verbatim>\<open>None\<close>.
\<close>

definition parse_dates :: "library \<Rightarrow> DateTimeFilter \<Rightarrow> exn + moment \<times> moment option" where
  "parse_dates lib self =
     (case to_datetime lib (start self) (date_format (has_time self)) of
        Inl e \<Rightarrow> Inl e
      | Inr start_date \<Rightarrow>
          (case end' self of
             None \<Rightarrow> Inr (start_date, None)
           | Some e \<Rightarrow>
               (case to_datetime lib e (date_format (has_time self)) of
                  Inl x \<Rightarrow> Inl x
                | Inr end_date \<Rightarrow> Inr (start_date, Some end_date))))"

text \<open>
  The \<^verbatim>\<open>if\<close> that opens the second \<^verbatim>\<open>try\<close>: the start date after it.
  \<^verbatim>\<open>self.period[-1:]\<close> is evaluated only when \<^verbatim>\<open>exact_dates\<close> is false, and raises
  \<^verbatim>\<open>TypeError\<close> on \<^verbatim>\<open>None\<close>; \<^verbatim>\<open>%\<close> raises \<^verbatim>\<open>ZeroDivisionError\<close> on a zero period.
\<close>

definition realign :: "library \<Rightarrow> DateTimeFilter \<Rightarrow> moment \<Rightarrow> exn + moment" where
  "realign lib self start_date =
     (if exact_dates self then Inr start_date
      else case period self of
        None \<Rightarrow> Inl TypeError
      | Some p \<Rightarrow>
          if last_slice p \<noteq> ''D'' then Inr start_date
          else case strftime lib start_date ''%Y'' of
            Inl e \<Rightarrow> Inl e
          | Inr start_year \<Rightarrow>
              (case strftime lib start_date ''%j'' of
                 Inl e \<Rightarrow> Inl e
               | Inr j \<Rightarrow>
                   (case py_int (int_max_str_digits lib) j of
                      Inl e \<Rightarrow> Inl e
                    | Inr start_day_of_year \<Rightarrow>
                        (case py_int (int_max_str_digits lib) (but_last_slice p) of
                           Inl e \<Rightarrow> Inl e
                         | Inr period_num \<Rightarrow>
                             if period_num = 0 then Inl ZeroDivisionError
                             else if (start_day_of_year - 1) mod period_num > 0 then
                               to_datetime lib
                                 (str_of_int (ceil_truediv (start_day_of_year - 1) period_num
                                    * period_num + 1) @ ''/'' @ start_year)
                                 ''%j/%Y''
                             else Inr start_date))))"

text \<open>The loop that formats the dates, stopping at the first exception.\<close>

fun format_all :: "library \<Rightarrow> string \<Rightarrow> moment list \<Rightarrow> exn + string list" where
  "format_all lib pat [] = Inr []"
| "format_all lib pat (dt # dts) =
     (case strftime lib dt pat of
        Inl e \<Rightarrow> Inl e
      | Inr s \<Rightarrow>
          (case format_all lib pat dts of
             Inl e \<Rightarrow> Inl e
           | Inr ss \<Rightarrow> Inr (s # ss)))"

text \<open>
  The dates to format: \<^verbatim>\<open>pd.date_range\<close> when there is an end, the start date alone
  otherwise. (\<open>end_date\<close> is \<open>Some\<close> exactly when \<^verbatim>\<open>self.end\<close> is not \<^verbatim>\<open>None\<close>.)
\<close>

definition all_dates :: "library \<Rightarrow> DateTimeFilter \<Rightarrow> moment \<Rightarrow> moment option \<Rightarrow>
    exn + moment list" where
  "all_dates lib self start_date end_date =
     (case end_date of
        Some e \<Rightarrow> date_range lib start_date e (period self)
      | None \<Rightarrow> Inr [start_date])"

text \<open>The body of the second \<^verbatim>\<open>try\<close>: the strings appended to \<^verbatim>\<open>self.values\<close>.\<close>

definition generate :: "library \<Rightarrow> DateTimeFilter \<Rightarrow> moment \<Rightarrow> moment option \<Rightarrow>
    exn + string list" where
  "generate lib self start_date end_date =
     (case realign lib self start_date of
        Inl e \<Rightarrow> Inl e
      | Inr aligned \<Rightarrow>
          (case all_dates lib self aligned end_date of
             Inl e \<Rightarrow> Inl e
           | Inr dts \<Rightarrow> format_all lib (pattern self) dts))"

text \<open>The handlers of the two \<^verbatim>\<open>try\<close> blocks.\<close>

definition date_failure :: "exn \<Rightarrow> GeoEDFError" where
  "date_failure e = (if e = ValueError then InvalidDatesDetail else InvalidDates)"

definition apply_failure :: "exn \<Rightarrow> GeoEDFError" where
  "apply_failure e = (if e = ValueError then ErrorApplying else UnknownErrorApplying)"

text \<open>
  \<^verbatim>\<open>filter\<close>: the instance with the new strings appended to its values, or the error
  raised. (An exception raised while formatting leaves the strings appended so far on
  the instance; the model returns the error only.)
\<close>

definition DateTimeFilter_filter :: "library \<Rightarrow> DateTimeFilter \<Rightarrow> GeoEDFError + DateTimeFilter" where
  "DateTimeFilter_filter lib self =
     (case parse_dates lib self of
        Inl e \<Rightarrow> Inl (date_failure e)
      | Inr (start_date, end_date) \<Rightarrow>
          (case generate lib self start_date end_date of
             Inl e \<Rightarrow> Inl (apply_failure e)
           | Inr vs \<Rightarrow> Inr (self\<lparr>values' := values' self @ vs\<rparr>)))"

text \<open>
  One use of the plug-in by its host: construct it from the parameters, call
  \<^verbatim>\<open>filter\<close> once, read \<^verbatim>\<open>values\<close>.
\<close>

definition run_filter :: "library \<Rightarrow> kwargs \<Rightarrow> GeoEDFError + string list" where
  "run_filter lib kw =
     (case DateTimeFilter_init kw of
        Inl e \<Rightarrow> Inl e
      | Inr self \<Rightarrow>
          (case DateTimeFilter_filter lib self of
             Inl e \<Rightarrow> Inl e
           | Inr self' \<Rightarrow> Inr (values' self')))"

text \<open>
  A library for closed examples: the interpreter's default limit on integer literals,
  and an exception wherever a model leaves a call to the library.
\<close>

definition bare_library :: library where
  "bare_library = \<lparr>lib_to_datetime = (\<lambda>s f. Inl OtherException),
     lib_strftime = (\<lambda>t p. Inl OtherException),
     lib_date_range = (\<lambda>s e f. Inl OtherException),
     int_max_str_digits = 4300\<rparr>"

subsection \<open>The date format of the specification\<close>

text \<open>
  The format as the specification words it, \<^verbatim>\<open>mm/dd/yyyy\<close> and
  \<^verbatim>\<open>mm/dd/yyyy hh:mm:ss\<close>, zero-padded: a letter of the template stands for one
  decimal digit, any other character for itself.
\<close>

fun matches_template :: "string \<Rightarrow> string \<Rightarrow> bool" where
  "matches_template [] [] = True"
| "matches_template (p # ps) (c # cs) =
     ((if p \<in> set ''mdyhs'' then is_digit c else c = p) \<and> matches_template ps cs)"
| "matches_template _ _ = False"

definition spec_format :: "bool \<Rightarrow> string \<Rightarrow> bool" where
  "spec_format with_time s =
     matches_template (if with_time then ''mm/dd/yyyy hh:mm:ss'' else ''mm/dd/yyyy'') s"

section \<open>Evaluation\<close>

text \<open>
  Rules that let the simplifier run the definitions above on numerals and literals.
\<close>

lemma add_days_step: "add_days k ymd = (if k = 0 then ymd else add_days (k - 1) (next_day ymd))"
  by (cases k) (simp_all add: add_days_def funpow_swap1)

lemma replicate_step: "replicate n x = (if n = 0 then [] else x # replicate (n - 1) x)"
  by (cases n) simp_all

lemmas char_defs = is_digit_def is_space_def is_int_space_def digit_val_def digit_char_def
  dec_val_def

lemmas calendar_defs = is_leap_def days_in_month_def days_in_year_def days_before_month_def
  days_before_year_def valid_date_def toordinal_def day_of_year_def next_day_def
  from_julian_def

lemmas timestamp_defs = midnight_def ts_value_def ts_min_def ts_max_def ts_le_def in_bounds_def

lemmas parse_defs = to_datetime_def parse_fields_def fields_timestamp_def nat_strings_def
  dir_alts_def match_items.simps default_fields_def group_int_def set_field_def
  fields_date_def

lemmas python_defs = pad_def str_of_int_def last_slice_def but_last_slice_def strip_def
  py_int_def ceil_truediv_def

lemmas strftime_defs = strftime_def std_directive_def dec.simps

lemmas range_defs = date_range_def day_freq_def plus_days_def day_steps_def

lemmas filter_defs = DateTimeFilter_init_def DateTimeFilter_filter_def date_format_def
  parse_dates_def realign_def all_dates_def generate_def date_failure_def apply_failure_def
  run_filter_def bare_library_def

lemmas eval_defs = char_defs calendar_defs timestamp_defs parse_defs python_defs
  strftime_defs range_defs filter_defs upt_conv_Cons add_days_step replicate_step

section \<open>The constructor\<close>

text \<open>
  Claim C6, as stated: every configuration with an end and no period fails with the
  missing-period error. It fails on a configuration that also lacks a required
  parameter: the required parameters are checked first, and their error is raised.
\<close>

theorem period_required_counterexample:
  "DateTimeFilter_init \<lparr>kw_pattern = None, kw_start = Some ''01/01/2020'',
     kw_end = Some ''12/31/2020'', kw_period = None, kw_has_time = None,
     kw_exact_dates = None\<rparr> = Inl (RequiredParameter ''pattern'')"
  by (simp add: DateTimeFilter_init_def)

text \<open>
  Claim C6, amended: for every configuration in which \<open>pattern\<close> and \<open>start\<close> are
  present, \<open>end\<close> is present and \<open>period\<close> is absent, construction fails with the
  missing-period error. No date is parsed before: the constructor fails whatever the
  strings are and whatever the library would do with them, so one use of the plug-in
  ends with this error and never with a date error.
\<close>

theorem period_required:
  assumes "kw_pattern kw = Some p" and "kw_start kw = Some s"
    and "kw_end kw = Some e" and "kw_period kw = None"
  shows "DateTimeFilter_init kw = Inl PeriodRequired \<and> run_filter lib kw = Inl PeriodRequired"
  using assms by (simp add: DateTimeFilter_init_def run_filter_def)

theorem period_required_witness:
  "DateTimeFilter_init \<lparr>kw_pattern = Some ''%Y'', kw_start = Some ''not a date'',
     kw_end = Some ''13/45/2020'', kw_period = None, kw_has_time = None,
     kw_exact_dates = None\<rparr> = Inl PeriodRequired \<and>
   run_filter bare_library \<lparr>kw_pattern = Some ''%Y'', kw_start = Some ''not a date'',
     kw_end = Some ''13/45/2020'', kw_period = None, kw_has_time = None,
     kw_exact_dates = None\<rparr> = Inl PeriodRequired"
  by (rule period_required [of _ "''%Y''" "''not a date''" "''13/45/2020''"]) simp_all

section \<open>Worked configurations\<close>

text \<open>
  Claim C4: for \<open>pattern = "%Y-%m-%d"\<close>, \<open>start = "01/01/2020"\<close>,
  \<open>end = "01/10/2020"\<close>, \<open>period = "5D"\<close> and \<open>exact_dates\<close> true, the plug-in produces
  exactly the strings 2020-01-01 and 2020-01-06: steps of five days from the literal
  start, none after the end.
\<close>

theorem end_to_end_example:
  "run_filter lib \<lparr>kw_pattern = Some ''%Y-%m-%d'', kw_start = Some ''01/01/2020'',
     kw_end = Some ''01/10/2020'', kw_period = Some ''5D'', kw_has_time = None,
     kw_exact_dates = Some True\<rparr> = Inr [''2020-01-01'', ''2020-01-06'']"
  by (simp add: eval_defs)

text \<open>
  Claim C3 says that every valid configuration without an end yields exactly one
  string, the formatted start. The smallest valid configuration, a pattern and a start
  with every optional parameter left out, yields none: \<open>exact_dates\<close> defaults to
  false, so \<^verbatim>\<open>self.period[-1:]\<close> is evaluated on \<^verbatim>\<open>None\<close>, and the \<^verbatim>\<open>TypeError\<close> leaves
  as "Unknown error applying DateTimeFilter".
\<close>

theorem start_only_fails:
  "run_filter lib \<lparr>kw_pattern = Some ''%Y-%m-%d'', kw_start = Some ''01/01/2020'',
     kw_end = None, kw_period = None, kw_has_time = None, kw_exact_dates = None\<rparr>
   = Inl UnknownErrorApplying"
  by (simp add: eval_defs)

text \<open>
  Where the alignment and the formatting succeed, a configuration without an end does
  yield one string, the formatted start date after alignment.
\<close>

lemma single_date_without_end:
  assumes "end' self = None"
    and "to_datetime lib (start self) (date_format (has_time self)) = Inr start_date"
    and "realign lib self start_date = Inr aligned"
    and "strftime lib aligned (pattern self) = Inr x"
  shows "DateTimeFilter_filter lib self = Inr (self\<lparr>values' := values' self @ [x]\<rparr>)"
  using assms
  by (simp add: DateTimeFilter_filter_def parse_dates_def generate_def all_dates_def)

section \<open>When the start date is not realigned\<close>

lemma realign_skipped:
  assumes "exact_dates self \<or> (\<exists>p. period self = Some p \<and> last_slice p \<noteq> ''D'')"
  shows "realign lib self start_date = Inr start_date"
  using assms by (auto simp: realign_def)

lemma generate_unaligned:
  assumes "realign lib self start_date = Inr start_date"
  shows "generate lib self start_date end_date =
    (case all_dates lib self start_date end_date of
       Inl e \<Rightarrow> Inl e
     | Inr dts \<Rightarrow> format_all lib (pattern self) dts)"
  using assms by (simp add: generate_def)

text \<open>
  Claim C5: whenever \<open>exact_dates\<close> is true, or the period's unit (its last
  character) is not \<^verbatim>\<open>D\<close>, the alignment is not applied: the parsed start date is
  left as it is, whatever its day of the year, and it is the date the enumeration
  starts from.
\<close>

theorem no_alignment:
  assumes "exact_dates self \<or> (\<exists>p. period self = Some p \<and> last_slice p \<noteq> ''D'')"
  shows "realign lib self start_date = Inr start_date \<and>
    generate lib self start_date end_date =
      (case all_dates lib self start_date end_date of
         Inl e \<Rightarrow> Inl e
       | Inr dts \<Rightarrow> format_all lib (pattern self) dts) \<and>
    all_dates lib self start_date None = Inr [start_date]"
  using realign_skipped [OF assms] generate_unaligned
  by (simp add: all_dates_def)

theorem no_alignment_witness:
  "exact_dates \<lparr>pattern = ''%Y-%m-%d'', start = ''01/07/2020'', end' = None,
      period = Some ''5D'', has_time = False, exact_dates = True, values' = []\<rparr> \<and>
   realign bare_library \<lparr>pattern = ''%Y-%m-%d'', start = ''01/07/2020'', end' = None,
      period = Some ''5D'', has_time = False, exact_dates = True, values' = []\<rparr>
     (Timestamp \<lparr>year = 2020, month = 1, day = 7, hour = 0, minute = 0, second = 0\<rparr>)
   = Inr (Timestamp \<lparr>year = 2020, month = 1, day = 7, hour = 0, minute = 0, second = 0\<rparr>)"
  using no_alignment [of "\<lparr>pattern = ''%Y-%m-%d'', start = ''01/07/2020'', end' = None,
      period = Some ''5D'', has_time = False, exact_dates = True, values' = []\<rparr>"
      bare_library
      "Timestamp \<lparr>year = 2020, month = 1, day = 7, hour = 0, minute = 0, second = 0\<rparr>" None]
  by simp

text \<open>
  Claim C10: the test for the unit is case-sensitive. With \<open>exact_dates\<close> false and
  a period that ends in a lower-case \<^verbatim>\<open>d\<close>, the start date is not realigned, and the
  enumeration goes on with that period: the start alone when there is no end, and
  with an end the range of \<^verbatim>\<open>pd.date_range\<close>, which for a magnitude of 1 to 106751
  steps from the literal start by that many days.
\<close>

theorem lowercase_d_not_aligned:
  assumes "\<not> exact_dates self" and "period self = Some (m @ ''d'')"
  shows "realign lib self start_date = Inr start_date \<and>
    all_dates lib self start_date None = Inr [start_date] \<and>
    (m \<noteq> [] \<and> list_all is_digit m \<and> 1 \<le> dec_val m \<and> dec_val m \<le> 106751 \<longrightarrow>
       all_dates lib self (Timestamp s) (Some (Timestamp e)) =
         Inr (map Timestamp (day_steps s e (dec_val m))))"
proof -
  have "last_slice (m @ ''d'') \<noteq> ''D''"
    by (simp add: last_slice_def)
  with assms have "realign lib self start_date = Inr start_date"
    by (intro realign_skipped) simp
  moreover have "all_dates lib self start_date None = Inr [start_date]"
    by (simp add: all_dates_def)
  moreover have "all_dates lib self (Timestamp s) (Some (Timestamp e)) =
      Inr (map Timestamp (day_steps s e (dec_val m)))"
    if "m \<noteq> []" "list_all is_digit m" "1 \<le> dec_val m" "dec_val m \<le> 106751"
    using that assms(2) by (simp add: all_dates_def date_range_def day_freq_def)
  ultimately show ?thesis by blast
qed

theorem lowercase_d_not_aligned_witness:
  "\<not> exact_dates \<lparr>pattern = ''%Y-%m-%d'', start = ''01/03/2020'', end' = Some ''01/14/2020'',
      period = Some (''5'' @ ''d''), has_time = False, exact_dates = False, values' = []\<rparr> \<and>
   realign bare_library \<lparr>pattern = ''%Y-%m-%d'', start = ''01/03/2020'',
      end' = Some ''01/14/2020'', period = Some (''5'' @ ''d''), has_time = False,
      exact_dates = False, values' = []\<rparr>
     (Timestamp \<lparr>year = 2020, month = 1, day = 3, hour = 0, minute = 0, second = 0\<rparr>)
   = Inr (Timestamp \<lparr>year = 2020, month = 1, day = 3, hour = 0, minute = 0, second = 0\<rparr>) \<and>
   all_dates bare_library \<lparr>pattern = ''%Y-%m-%d'', start = ''01/03/2020'',
      end' = Some ''01/14/2020'', period = Some (''5'' @ ''d''), has_time = False,
      exact_dates = False, values' = []\<rparr>
     (Timestamp \<lparr>year = 2020, month = 1, day = 3, hour = 0, minute = 0, second = 0\<rparr>)
     (Some (Timestamp \<lparr>year = 2020, month = 1, day = 14, hour = 0, minute = 0, second = 0\<rparr>))
   = Inr [Timestamp \<lparr>year = 2020, month = 1, day = 3, hour = 0, minute = 0, second = 0\<rparr>,
          Timestamp \<lparr>year = 2020, month = 1, day = 8, hour = 0, minute = 0, second = 0\<rparr>,
          Timestamp \<lparr>year = 2020, month = 1, day = 13, hour = 0, minute = 0, second = 0\<rparr>]"
  using lowercase_d_not_aligned [of "\<lparr>pattern = ''%Y-%m-%d'', start = ''01/03/2020'',
      end' = Some ''01/14/2020'', period = Some (''5'' @ ''d''), has_time = False,
      exact_dates = False, values' = []\<rparr>" "''5''" bare_library
      "Timestamp \<lparr>year = 2020, month = 1, day = 3, hour = 0, minute = 0, second = 0\<rparr>"
      "\<lparr>year = 2020, month = 1, day = 3, hour = 0, minute = 0, second = 0\<rparr>"
      "\<lparr>year = 2020, month = 1, day = 14, hour = 0, minute = 0, second = 0\<rparr>"]
  by (simp add: char_defs calendar_defs timestamp_defs plus_days_def day_steps_def
      upt_conv_Cons add_days_step)

section \<open>Repeated invocation\<close>

lemma parse_dates_values: "parse_dates lib (self\<lparr>values' := acc\<rparr>) = parse_dates lib self"
  by (simp add: parse_dates_def cong: sum.case_cong option.case_cong)

lemma generate_values:
  "generate lib (self\<lparr>values' := acc\<rparr>) start_date end_date = generate lib self start_date end_date"
  by (simp add: generate_def realign_def all_dates_def cong: sum.case_cong option.case_cong)

text \<open>
  Claim C9, as stated: invoking the generation step twice yields identical output
  sequences. \<^verbatim>\<open>filter\<close> appends to \<^verbatim>\<open>self.values\<close>, which only the constructor empties:
  invoked a second time on the same instance it leaves the strings there twice.
\<close>

theorem filter_twice_counterexample:
  "DateTimeFilter_filter bare_library \<lparr>pattern = ''%Y-%m-%d'', start = ''01/01/2020'',
      end' = None, period = None, has_time = False, exact_dates = True, values' = []\<rparr>
   = Inr \<lparr>pattern = ''%Y-%m-%d'', start = ''01/01/2020'', end' = None, period = None,
      has_time = False, exact_dates = True, values' = [''2020-01-01'']\<rparr> \<and>
   DateTimeFilter_filter bare_library \<lparr>pattern = ''%Y-%m-%d'', start = ''01/01/2020'',
      end' = None, period = None, has_time = False, exact_dates = True,
      values' = [''2020-01-01'']\<rparr>
   = Inr \<lparr>pattern = ''%Y-%m-%d'', start = ''01/01/2020'', end' = None, period = None,
      has_time = False, exact_dates = True, values' = [''2020-01-01'', ''2020-01-01'']\<rparr>"
  by (simp add: eval_defs)

text \<open>
  Claim C9, amended: the strings an invocation generates are a function of the
  configuration alone (the pattern, the dates, the period and the two flags), whatever
  \<^verbatim>\<open>values\<close> holds before, and a successful invocation appends them to \<^verbatim>\<open>values\<close>.
  Hence instances constructed from the same configuration yield identical sequences
  on their first invocation, and a second invocation on the same instance yields the
  sequence twice over.
\<close>

theorem filter_appends:
  assumes "DateTimeFilter_filter lib self = Inr self'"
  shows "\<exists>vs. self' = self\<lparr>values' := values' self @ vs\<rparr> \<and>
    (\<forall>acc. DateTimeFilter_filter lib (self\<lparr>values' := acc\<rparr>) = Inr (self\<lparr>values' := acc @ vs\<rparr>))"
proof -
  from assms obtain start_date end_date vs
    where p: "parse_dates lib self = Inr (start_date, end_date)"
      and g: "generate lib self start_date end_date = Inr vs"
      and r: "self' = self\<lparr>values' := values' self @ vs\<rparr>"
    by (auto simp: DateTimeFilter_filter_def split: sum.splits prod.splits)
  have "DateTimeFilter_filter lib (self\<lparr>values' := acc\<rparr>) = Inr (self\<lparr>values' := acc @ vs\<rparr>)"
    for acc
    using p g by (simp add: DateTimeFilter_filter_def parse_dates_values generate_values)
  with r show ?thesis by blast
qed

theorem filter_appends_witness:
  "DateTimeFilter_filter bare_library \<lparr>pattern = ''%Y-%m-%d'', start = ''01/01/2020'',
      end' = None, period = None, has_time = False, exact_dates = True, values' = []\<rparr>
   = Inr \<lparr>pattern = ''%Y-%m-%d'', start = ''01/01/2020'', end' = None, period = None,
      has_time = False, exact_dates = True, values' = [''2020-01-01'']\<rparr> \<and>
   (\<exists>vs. \<forall>acc. DateTimeFilter_filter bare_library \<lparr>pattern = ''%Y-%m-%d'',
      start = ''01/01/2020'', end' = None, period = None, has_time = False,
      exact_dates = True, values' = acc\<rparr>
    = Inr \<lparr>pattern = ''%Y-%m-%d'', start = ''01/01/2020'', end' = None, period = None,
      has_time = False, exact_dates = True, values' = acc @ vs\<rparr>)"
proof -
  have run: "DateTimeFilter_filter bare_library \<lparr>pattern = ''%Y-%m-%d'', start = ''01/01/2020'',
      end' = None, period = None, has_time = False, exact_dates = True, values' = []\<rparr>
   = Inr \<lparr>pattern = ''%Y-%m-%d'', start = ''01/01/2020'', end' = None, period = None,
      has_time = False, exact_dates = True, values' = [''2020-01-01'']\<rparr>"
    by (simp add: eval_defs)
  from filter_appends [OF run] show ?thesis
    using run by simp
qed

section \<open>Decimal numerals\<close>

lemma digit_cases:
  assumes "d < (10::nat)"
  obtains "d = 0" | "d = 1" | "d = 2" | "d = 3" | "d = 4" | "d = 5" | "d = 6" | "d = 7"
    | "d = 8" | "d = 9"
  using assms by atomize_elim arith

lemma digit_val_digit_char: "digit_val (digit_char k) = k mod 10"
proof -
  have "k mod 10 < 10" by simp
  then show ?thesis
    by (cases "k mod 10" rule: digit_cases) (simp_all add: digit_val_def digit_char_def)
qed

lemma is_digit_digit_char: "is_digit (digit_char k)"
proof -
  have "k mod 10 < 10" by simp
  then show ?thesis
    by (cases "k mod 10" rule: digit_cases) (simp_all add: is_digit_def digit_char_def)
qed

lemma digit_not_space: "is_digit c \<Longrightarrow> \<not> is_int_space c"
  by (auto simp: is_digit_def is_int_space_def)

lemma digit_not_sign: "is_digit c \<Longrightarrow> c \<noteq> CHR ''-'' \<and> c \<noteq> CHR ''+'' \<and> c \<noteq> CHR ''_''"
  by (auto simp: is_digit_def)

lemma dec_val_snoc: "dec_val (xs @ [c]) = 10 * dec_val xs + digit_val c"
  by (simp add: dec_val_def)

lemma dec_val_dec: "dec_val (dec n) = n"
proof (induction n rule: dec.induct)
  case (1 n)
  show ?case
  proof (cases "n < 10")
    case True
    then show ?thesis
      by (subst dec.simps) (simp add: dec_val_def digit_val_digit_char)
  next
    case False
    with "1.IH" have "dec_val (dec (n div 10)) = n div 10" by simp
    with False show ?thesis
      by (subst dec.simps) (simp add: dec_val_snoc digit_val_digit_char)
  qed
qed

lemma digits_dec: "list_all is_digit (dec n)"
proof (induction n rule: dec.induct)
  case (1 n)
  show ?case
  proof (cases "n < 10")
    case True
    then show ?thesis by (subst dec.simps) (simp add: is_digit_digit_char)
  next
    case False
    with "1.IH" have "list_all is_digit (dec (n div 10))" by simp
    with False show ?thesis by (subst dec.simps) (simp add: is_digit_digit_char)
  qed
qed

lemma dec_not_Nil: "dec n \<noteq> []"
  by (subst dec.simps) simp

lemma dec_1: "n < 10 \<Longrightarrow> dec n = [digit_char n]"
  by (subst dec.simps) simp

lemma dec_2: "10 \<le> n \<Longrightarrow> n < 100 \<Longrightarrow> dec n = [digit_char (n div 10), digit_char n]"
  by (subst dec.simps) (simp add: dec_1 digit_char_def)

lemma dec_3:
  "100 \<le> n \<Longrightarrow> n < 1000 \<Longrightarrow> dec n = [digit_char (n div 100), digit_char (n div 10), digit_char n]"
  by (subst dec.simps) (simp add: dec_2 digit_char_def div_mult2_eq [symmetric])

lemma dec_4:
  "1000 \<le> n \<Longrightarrow> n < 10000 \<Longrightarrow>
    dec n = [digit_char (n div 1000), digit_char (n div 100), digit_char (n div 10), digit_char n]"
  by (subst dec.simps) (simp add: dec_3 digit_char_def div_mult2_eq [symmetric])

lemma length_dec: "n < 1000 \<Longrightarrow> length (dec n) \<le> 3"
proof -
  assume "n < 1000"
  then consider "n < 10" | "10 \<le> n" "n < 100" | "100 \<le> n" "n < 1000" by linarith
  then show ?thesis by cases (simp_all add: dec_1 dec_2 dec_3)
qed

lemma dec_val_zeros: "dec_val (replicate k (CHR ''0'') @ xs) = dec_val xs"
proof -
  have "foldl (\<lambda>a c. 10 * a + digit_val c) 0 (replicate k (CHR ''0'')) = 0"
    by (induction k) (simp_all add: digit_val_def)
  then show ?thesis by (simp add: dec_val_def)
qed

lemma digits_pad: "list_all is_digit (pad w n)"
proof -
  have "list_all is_digit (replicate k (CHR ''0''))" for k
    by (induction k) (simp_all add: is_digit_def)
  then show ?thesis by (simp add: pad_def digits_dec)
qed

lemma pad_not_Nil: "pad w n \<noteq> []"
  by (simp add: pad_def dec_not_Nil)

lemma dec_val_pad: "dec_val (pad w n) = n"
  by (simp add: pad_def dec_val_zeros dec_val_dec)

lemma length_pad_3: "n < 1000 \<Longrightarrow> length (pad 3 n) = 3"
  using length_dec [of n] by (simp add: pad_def)

lemma pad_4: "1000 \<le> n \<Longrightarrow> n < 10000 \<Longrightarrow> pad 4 n = dec n"
  by (simp add: pad_def dec_4)

section \<open>\<^verbatim>\<open>int\<close> of a digit string\<close>

lemma digit_groups_digits: "xs \<noteq> [] \<Longrightarrow> list_all is_digit xs \<Longrightarrow> digit_groups xs = Some xs"
  by (induction xs rule: digit_groups.induct) (auto simp: digit_not_sign)

lemma strip_digits:
  assumes "list_all is_digit xs"
  shows "strip xs = xs"
proof -
  have *: "dropWhile is_int_space ys = ys" if "list_all is_digit ys" for ys
    using that by (cases ys) (simp_all add: digit_not_space)
  have "list_all is_digit (rev xs)"
    using assms by (simp add: list_all_iff)
  with assms show ?thesis by (simp add: strip_def *)
qed

lemma py_int_digits:
  assumes "xs \<noteq> []" and "list_all is_digit xs" and "length xs \<le> 640"
  shows "py_int md xs = Inr (int (dec_val xs))"
proof -
  from assms have "is_digit (hd xs)" by (cases xs) simp_all
  then have "hd xs \<noteq> CHR ''-''" "hd xs \<noteq> CHR ''+''"
    by (simp_all add: digit_not_sign)
  with assms show ?thesis
    by (simp add: py_int_def strip_digits digit_groups_digits)
qed

lemma py_int_pad_3: "n < 1000 \<Longrightarrow> py_int md (pad 3 n) = Inr (int n)"
  using py_int_digits [of "pad 3 n" md]
  by (simp add: pad_not_Nil digits_pad length_pad_3 dec_val_pad)

section \<open>Days of the year\<close>

lemma month_cases:
  assumes "1 \<le> m" and "m \<le> (12::nat)"
  obtains "m = 1" | "m = 2" | "m = 3" | "m = 4" | "m = 5" | "m = 6" | "m = 7" | "m = 8"
    | "m = 9" | "m = 10" | "m = 11" | "m = 12"
  using assms by atomize_elim arith

lemma day_of_year_bounds:
  assumes "valid_date y m d"
  shows "1 \<le> day_of_year y m d \<and> day_of_year y m d \<le> days_in_year y"
proof -
  from assms have "1 \<le> m" "m \<le> 12" by (simp_all add: valid_date_def)
  then show ?thesis
    using assms
    by (cases m rule: month_cases)
      (auto simp: valid_date_def day_of_year_def days_before_month_def days_in_month_def
        days_in_year_def upt_conv_Cons split: if_splits)
qed

lemma next_day_in_year:
  assumes "valid_date y m d" and "day_of_year y m d < days_in_year y"
  shows "\<exists>m' d'. next_day (y, m, d) = (y, m', d') \<and> valid_date y m' d' \<and>
    day_of_year y m' d' = day_of_year y m d + 1"
proof -
  from assms have "1 \<le> m" "m \<le> 12" by (simp_all add: valid_date_def)
  then show ?thesis
    using assms
    by (cases m rule: month_cases)
      (auto simp: valid_date_def day_of_year_def days_before_month_def days_in_month_def
        days_in_year_def next_day_def upt_conv_Cons split: if_splits)
qed

lemma add_days_in_year:
  assumes "1 \<le> y" and "y \<le> 9999"
  shows "k < days_in_year y \<Longrightarrow>
    \<exists>m d. add_days k (y, 1, 1) = (y, m, d) \<and> valid_date y m d \<and> day_of_year y m d = k + 1"
proof (induction k)
  case 0
  from assms show ?case
    by (simp add: add_days_def valid_date_def day_of_year_def days_before_month_def
        days_in_month_def)
next
  case (Suc k)
  then obtain m d where md: "add_days k (y, 1, 1) = (y, m, d)" "valid_date y m d"
    "day_of_year y m d = k + 1"
    by auto
  with Suc.prems have "day_of_year y m d < days_in_year y" by simp
  from next_day_in_year [OF md(2) this] md show ?case
    by (auto simp: add_days_def)
qed

lemma from_julian_in_year:
  assumes "1 \<le> y" and "y \<le> 9999" and "1 \<le> j" and "j \<le> days_in_year y"
  shows "\<exists>m d. from_julian y j = (y, m, d) \<and> valid_date y m d \<and> day_of_year y m d = j"
  using add_days_in_year [OF assms(1,2), of "j - 1"] assms(3,4)
  by (simp add: from_julian_def)

section \<open>Parsing a day of the year and a year\<close>

lemma match_year:
  assumes "length ys = 4" and "list_all is_digit ys"
  shows "match_items [Dir (CHR ''Y'')] ys g = Some (g @ [(CHR ''Y'', ys)], [])"
proof -
  from assms(1) obtain y3 y2 y1 y0 where ys: "ys = [y3, y2, y1, y0]"
    by (auto simp: eval_nat_numeral length_Suc_conv)
  with assms(2) show ?thesis
    by (simp add: match_items.simps dir_alts_def is_digit_def)
qed

lemmas match_julian_rules = match_items.simps(1,2) match_items.simps(4) [of "CHR ''j''"]
  dir_alts_def

lemma match_julian_1:
  assumes "a \<in> set ''123456789''" and "length ys = 4" and "list_all is_digit ys"
  shows "match_items [Dir (CHR ''j''), Lit (CHR ''/''), Dir (CHR ''Y'')] (a # CHR ''/'' # ys) []
    = Some ([(CHR ''j'', [a]), (CHR ''Y'', ys)], [])"
  using assms(1) by (auto simp: match_julian_rules match_year [OF assms(2,3)])

lemma match_julian_2:
  assumes "a \<in> set ''123456789''" and "is_digit b" and "length ys = 4"
    and "list_all is_digit ys"
  shows "match_items [Dir (CHR ''j''), Lit (CHR ''/''), Dir (CHR ''Y'')]
      (a # b # CHR ''/'' # ys) []
    = Some ([(CHR ''j'', [a, b]), (CHR ''Y'', ys)], [])"
proof -
  from assms(1) consider "a = CHR ''1''" | "a = CHR ''2''" | "a = CHR ''3''" | "a = CHR ''4''"
    | "a = CHR ''5''" | "a = CHR ''6''" | "a = CHR ''7''" | "a = CHR ''8''" | "a = CHR ''9''"
    by auto
  then show ?thesis
    using assms(2)
    by cases
      (simp_all add: match_julian_rules match_year [OF assms(3,4)] is_digit_def cong: if_cong)
qed

lemma match_julian_3:
  assumes "(a = CHR ''1'' \<or> a = CHR ''2'') \<and> is_digit b \<and> is_digit c \<or>
      a = CHR ''3'' \<and> b \<in> set ''012345'' \<and> is_digit c \<or>
      a = CHR ''3'' \<and> b = CHR ''6'' \<and> c \<in> set ''0123456''"
    and "length ys = 4" and "list_all is_digit ys"
  shows "match_items [Dir (CHR ''j''), Lit (CHR ''/''), Dir (CHR ''Y'')]
      (a # b # c # CHR ''/'' # ys) []
    = Some ([(CHR ''j'', [a, b, c]), (CHR ''Y'', ys)], [])"
proof -
  from assms(1) consider
      (low) "a = CHR ''1'' \<or> a = CHR ''2''" "is_digit b" "is_digit c"
    | (mid) "a = CHR ''3''" "b \<in> set ''012345''" "is_digit c"
    | (high) "a = CHR ''3''" "b = CHR ''6''" "c \<in> set ''0123456''"
    by blast
  then show ?thesis
  proof cases
    case low
    from low(1) show ?thesis
      using low(2,3)
      by (elim disjE)
        (simp_all add: match_julian_rules match_year [OF assms(2,3)] is_digit_def cong: if_cong)
  next
    case mid
    from mid(2) consider "b = CHR ''0''" | "b = CHR ''1''" | "b = CHR ''2''" | "b = CHR ''3''"
      | "b = CHR ''4''" | "b = CHR ''5''"
      by auto
    then show ?thesis
      using mid(1,3)
      by cases
        (simp_all add: match_julian_rules match_year [OF assms(2,3)] is_digit_def cong: if_cong)
  next
    case high
    from high(3) show ?thesis
      using high(1,2)
      by (auto simp: match_julian_rules match_year [OF assms(2,3)])
  qed
qed

lemma nonzero_digit_char:
  assumes "1 \<le> k mod 10"
  shows "digit_char k \<in> set ''123456789''"
proof -
  have "k mod 10 < 10" by simp
  then show ?thesis
    using assms by (cases "k mod 10" rule: digit_cases) (simp_all add: digit_char_def)
qed

lemma match_julian:
  assumes "1 \<le> j" and "j \<le> 366" and ys: "length ys = 4" "list_all is_digit ys"
  shows "match_items [Dir (CHR ''j''), Lit (CHR ''/''), Dir (CHR ''Y'')] (dec j @ CHR ''/'' # ys) []
    = Some ([(CHR ''j'', dec j), (CHR ''Y'', ys)], [])"
proof -
  consider (one) "j < 10" | (two) "10 \<le> j" "j < 100" | (three) "100 \<le> j"
    by linarith
  then show ?thesis
  proof cases
    case one
    with assms(1) have "digit_char j \<in> set ''123456789''"
      by (intro nonzero_digit_char) simp
    from match_julian_1 [OF this ys] one show ?thesis
      by (simp add: dec_1)
  next
    case two
    then have "1 \<le> (j div 10) mod 10"
      by (simp add: less_eq_div_iff_mult_less_eq div_less_iff_less_mult)
    then have "digit_char (j div 10) \<in> set ''123456789''"
      by (rule nonzero_digit_char)
    from match_julian_2 [OF this is_digit_digit_char ys] two show ?thesis
      by (simp add: dec_2)
  next
    case three
    have digits: "dec j = [digit_char (j div 100), digit_char (j div 10), digit_char j]"
      using three assms(2) by (simp add: dec_3)
    consider (low) "j < 300" | (mid) "300 \<le> j" "j < 360" | (high) "360 \<le> j"
      by linarith
    then have "(digit_char (j div 100) = CHR ''1'' \<or> digit_char (j div 100) = CHR ''2'') \<and>
        is_digit (digit_char (j div 10)) \<and> is_digit (digit_char j) \<or>
      digit_char (j div 100) = CHR ''3'' \<and> digit_char (j div 10) \<in> set ''012345'' \<and>
        is_digit (digit_char j) \<or>
      digit_char (j div 100) = CHR ''3'' \<and> digit_char (j div 10) = CHR ''6'' \<and>
        digit_char j \<in> set ''0123456''"
    proof cases
      case low
      with three have "j div 100 = 1 \<or> j div 100 = 2" by arith
      then have "digit_char (j div 100) = CHR ''1'' \<or> digit_char (j div 100) = CHR ''2''"
        by (auto simp: digit_char_def)
      then show ?thesis by (simp add: is_digit_digit_char)
    next
      case mid
      then have "j div 100 = 3" by arith
      then have a: "digit_char (j div 100) = CHR ''3''"
        by (simp add: digit_char_def)
      from mid have "j div 10 = 30 \<or> j div 10 = 31 \<or> j div 10 = 32 \<or> j div 10 = 33 \<or>
          j div 10 = 34 \<or> j div 10 = 35"
        by arith
      then have "digit_char (j div 10) \<in> set ''012345''"
        by (auto simp: digit_char_def)
      with a show ?thesis by (simp add: is_digit_digit_char)
    next
      case high
      with assms(2) have "j = 360 \<or> j = 361 \<or> j = 362 \<or> j = 363 \<or> j = 364 \<or> j = 365 \<or>
          j = 366"
        by arith
      then show ?thesis
        by (auto simp: digit_char_def)
    qed
    from match_julian_3 [OF this ys] digits show ?thesis
      by simp
  qed
qed

text \<open>
  \<^verbatim>\<open>to_datetime\<close> of a day of the year from 1 to 366 and a four-digit year, in the
  format \<^verbatim>\<open>%j/%Y\<close>: the day counted from January 1st, at midnight.
\<close>

lemma to_datetime_julian:
  assumes "1 \<le> j" and "j \<le> 366" and "1000 \<le> y" and "y \<le> 9999"
  shows "to_datetime lib (dec j @ ''/'' @ dec y) ''%j/%Y'' =
    (if fst (from_julian y j) \<le> 9999 \<and> in_bounds (midnight (from_julian y j))
     then Inr (Timestamp (midnight (from_julian y j))) else Inl ValueError)"
proof -
  have ys: "length (dec y) = 4" "list_all is_digit (dec y)"
    using assms(3,4) by (simp add: dec_4) (rule digits_dec)
  have "length s \<le> 3" if "s \<in> set nat_strings" for s
    using that by (auto simp: nat_strings_def)
  with ys(1) have no_nat: "dec j @ CHR ''/'' # dec y \<notin> set nat_strings"
    by fastforce
  have fmt: "compile_format ''%j/%Y'' = Some [Dir (CHR ''j''), Lit (CHR ''/''), Dir (CHR ''Y'')]"
    by (simp add: dir_alts_def is_space_def)
  have "filter is_digit (dec n) = dec n" for n
    using digits_dec [of n] by (simp add: list_all_iff)
  then have ints: "group_int (dec n) = n" for n
    by (simp add: group_int_def dec_val_dec)
  have "(midnight ymd)\<lparr>hour := 0, minute := 0, second := 0\<rparr> = midnight ymd" for ymd
    by (cases ymd) (simp add: midnight_def)
  with assms(3,4) show ?thesis
    by (simp add: to_datetime_def parse_fields_def fields_timestamp_def no_nat fmt
        match_julian [OF assms(1,2) ys] set_field_def default_fields_def ints fields_date_def
        del: compile_format.simps)
qed

section \<open>The realigned start date\<close>

lemma in_bounds_year: "in_bounds t \<Longrightarrow> 1677 \<le> year t \<and> year t \<le> 2262"
  by (auto simp: in_bounds_def ts_le_def ts_min_def ts_max_def split: if_splits)

lemma strftime_year:
  assumes "in_bounds t"
  shows "strftime lib (Timestamp t) ''%Y'' = Inr (dec (year t))"
  using in_bounds_year [OF assms] by (simp add: strftime_def std_directive_def pad_4)

lemma strftime_day_of_year:
  "strftime lib (Timestamp t) ''%j'' = Inr (pad 3 (day_of_year (year t) (month t) (day t)))"
  by (simp add: strftime_def std_directive_def)

text \<open>
  Lines 96 to 104 for a period that ends in \<^verbatim>\<open>D\<close>, with \<open>exact_dates\<close> false, on a
  parsed start date: what is left once the year and the day of the year have gone
  through their strings.
\<close>

lemma realign_day_period:
  assumes "\<not> exact_dates self" and "period self = Some (m @ ''D'')"
    and "valid_date (year t) (month t) (day t)" and "in_bounds t"
  shows "realign lib self (Timestamp t) =
    (case py_int (int_max_str_digits lib) m of
       Inl e \<Rightarrow> Inl e
     | Inr n \<Rightarrow>
         if n = 0 then Inl ZeroDivisionError
         else if (int (day_of_year (year t) (month t) (day t)) - 1) mod n > 0 then
           to_datetime lib
             (str_of_int (ceil_truediv (int (day_of_year (year t) (month t) (day t)) - 1) n
                * n + 1) @ ''/'' @ dec (year t))
             ''%j/%Y''
         else Inr (Timestamp t))"
proof -
  from day_of_year_bounds [OF assms(3)]
  have "day_of_year (year t) (month t) (day t) < 1000"
    by (simp add: days_in_year_def split: if_splits)
  then have "py_int (int_max_str_digits lib) (pad 3 (day_of_year (year t) (month t) (day t)))
      = Inr (int (day_of_year (year t) (month t) (day t)))"
    by (rule py_int_pad_3)
  with assms(1,2) show ?thesis
    by (simp add: realign_def last_slice_def but_last_slice_def strftime_year [OF assms(4)]
        strftime_day_of_year cong: sum.case_cong)
qed

lemma ceil_truediv_small:
  assumes "0 < a" and "0 < n" and "- ((- a) div n) * n + 1 \<le> 366"
  shows "ceil_truediv a n = - ((- a) div n)" and "1 \<le> - ((- a) div n)"
proof -
  from assms(1,2) have "(- a) div n < 0"
    by (simp add: pos_imp_zdiv_neg_iff)
  then show k: "1 \<le> - ((- a) div n)" by simp
  with assms(2) have "n * 1 \<le> n * (- ((- a) div n))"
    by (intro mult_left_mono) simp_all
  with assms(3) have "n \<le> 365" by (simp add: mult.commute)
  moreover have "(365::int) < 2 ^ 1075" by simp
  moreover from assms(1) have "(1::int) * 2 ^ 1075 \<le> a * 2 ^ 1075"
    by (intro mult_right_mono) simp_all
  ultimately have "\<not> a * 2 ^ 1075 \<le> n" by simp
  then show "ceil_truediv a n = - ((- a) div n)"
    by (simp add: ceil_truediv_def)
qed

text \<open>
  The start date is left alone when its day of the year is one more than a multiple of
  the period, and otherwise moved to the next such day, while that day is in the year.
\<close>

lemma realign_to_next:
  assumes "\<not> exact_dates self" and "period self = Some (m @ ''D'')"
    and "py_int (int_max_str_digits lib) m = Inr n" and "n \<noteq> 0"
    and "valid_date (year t) (month t) (day t)" and "in_bounds t"
    and a: "a = int (day_of_year (year t) (month t) (day t)) - 1"
    and x: "x = - ((- a) div n) * n + 1"
  shows "\<not> 0 < a mod n \<Longrightarrow> realign lib self (Timestamp t) = Inr (Timestamp t)"
    and "0 < a mod n \<Longrightarrow> x \<le> int (days_in_year (year t)) \<Longrightarrow>
      realign lib self (Timestamp t) =
        (if in_bounds (midnight (from_julian (year t) (nat x)))
         then Inr (Timestamp (midnight (from_julian (year t) (nat x)))) else Inl ValueError)"
    and "0 < a mod n \<Longrightarrow> x \<le> int (days_in_year (year t)) \<Longrightarrow>
      (\<exists>mo d. from_julian (year t) (nat x) = (year t, mo, d) \<and> valid_date (year t) mo d \<and>
        int (day_of_year (year t) mo d) = x)"
proof -
  note step = realign_day_period [OF assms(1,2,5,6), of lib, unfolded assms(3), folded a]
  show "realign lib self (Timestamp t) = Inr (Timestamp t)" if "\<not> 0 < a mod n"
    using that assms(4) by (simp add: step)
  assume pos: "0 < a mod n" and fits: "x \<le> int (days_in_year (year t))"
  from day_of_year_bounds [OF assms(5)] have "0 \<le> a" by (simp add: a)
  have "0 < n"
  proof (rule ccontr)
    assume "\<not> 0 < n"
    with assms(4) have "n < 0" by simp
    then have "a mod n \<le> 0" by (rule neg_mod_bound [THEN less_imp_le] | simp)+
    with pos show False by simp
  qed
  have "0 < a"
  proof (rule ccontr)
    assume "\<not> 0 < a"
    with \<open>0 \<le> a\<close> have "a = 0" by simp
    with pos show False by simp
  qed
  from fits have "x \<le> 366" by (simp add: days_in_year_def split: if_splits)
  from ceil_truediv_small [OF \<open>0 < a\<close> \<open>0 < n\<close> this [unfolded x]]
  have c: "ceil_truediv a n = - ((- a) div n)" and k: "1 \<le> - ((- a) div n)" .
  from k have "0 < - ((- a) div n)" by linarith
  from mult_pos_pos [OF this \<open>0 < n\<close>] have "0 < - ((- a) div n) * n" .
  then have "1 \<le> x" by (simp add: x)
  from in_bounds_year [OF assms(6)] have y: "1000 \<le> year t" "year t \<le> 9999" "1 \<le> year t"
    by simp_all
  from \<open>1 \<le> x\<close> \<open>x \<le> 366\<close> have j: "1 \<le> nat x" "nat x \<le> 366" by simp_all
  from \<open>1 \<le> x\<close> fits have "nat x \<le> days_in_year (year t)" by simp
  from from_julian_in_year [OF y(3,2) j(1) this] \<open>1 \<le> x\<close>
  show date: "\<exists>mo d. from_julian (year t) (nat x) = (year t, mo, d) \<and>
      valid_date (year t) mo d \<and> int (day_of_year (year t) mo d) = x"
    by auto
  then have "fst (from_julian (year t) (nat x)) \<le> 9999"
    using y(2) by auto
  then have parsed: "to_datetime lib (dec (nat x) @ ''/'' @ dec (year t)) ''%j/%Y'' =
      (if in_bounds (midnight (from_julian (year t) (nat x)))
       then Inr (Timestamp (midnight (from_julian (year t) (nat x)))) else Inl ValueError)"
    using to_datetime_julian [OF j y(1,2), of lib] by simp
  have "ceil_truediv a n * n + 1 = x"
    by (simp only: c x)
  with \<open>1 \<le> x\<close> have rendered: "str_of_int (ceil_truediv a n * n + 1) = dec (nat x)"
    by (simp add: str_of_int_def)
  have "realign lib self (Timestamp t) =
      to_datetime lib (str_of_int (ceil_truediv a n * n + 1) @ ''/'' @ dec (year t)) ''%j/%Y''"
    using pos assms(4) by (simp add: step)
  then show "realign lib self (Timestamp t) =
      (if in_bounds (midnight (from_julian (year t) (nat x)))
       then Inr (Timestamp (midnight (from_julian (year t) (nat x)))) else Inl ValueError)"
    by (simp only: rendered parsed)
qed

text \<open>
  Claim C1, as stated: whenever \<open>(startDayOfYear - 1) mod n > 0\<close> the start date is
  replaced by the date at ordinal day \<open>ceil((startDayOfYear - 1) / n) * n + 1\<close> of the
  same calendar year. For a start on 28 December 2021 and the period \<^verbatim>\<open>5D\<close> that
  ordinal day is 366, which 2021 does not have: \<^verbatim>\<open>to_datetime\<close> counts the day on from
  January 1st, and the start date becomes 1 January 2022.
\<close>

theorem realign_start_counterexample:
  "day_of_year 2021 12 28 = 362 \<and> days_in_year 2021 = 365 \<and>
   \<lceil>real_of_int (362 - 1) / real_of_int 5\<rceil> * 5 + 1 = 366 \<and>
   realign bare_library \<lparr>pattern = ''%Y-%m-%d'', start = ''12/28/2021'', end' = None,
      period = Some ''5D'', has_time = False, exact_dates = False, values' = []\<rparr>
     (Timestamp \<lparr>year = 2021, month = 12, day = 28, hour = 0, minute = 0, second = 0\<rparr>)
   = Inr (Timestamp \<lparr>year = 2022, month = 1, day = 1, hour = 0, minute = 0, second = 0\<rparr>) \<and>
   run_filter bare_library \<lparr>kw_pattern = Some ''%Y-%m-%d'', kw_start = Some ''12/28/2021'',
      kw_end = None, kw_period = Some ''5D'', kw_has_time = None, kw_exact_dates = None\<rparr>
   = Inr [''2022-01-01'']"
  by (simp add: eval_defs)

text \<open>
  Claim C1, amended: for every configuration with \<open>exact_dates\<close> false and a period of
  unit \<^verbatim>\<open>D\<close> whose magnitude is an integer \<open>n\<close> other than zero, and every parsed start
  date, let \<open>a\<close> be the 1-based day of the year of the start date less one. If
  \<open>a mod n > 0\<close> (Python's \<^verbatim>\<open>%\<close>, so for no negative \<open>n\<close>) and the ordinal day
  \<open>x = ceil(a / n) * n + 1\<close> is at most the number of days of the start year, the step
  replaces the start date by the date at ordinal day \<open>x\<close> of the same calendar year,
  at 00:00:00 (and fails if that date is past the last pandas time stamp, in 2262).
  If \<open>a mod n\<close> is not positive, the start date is left unchanged.
\<close>

theorem realign_start:
  assumes "\<not> exact_dates self" and "period self = Some (m @ ''D'')"
    and "py_int (int_max_str_digits lib) m = Inr n" and "n \<noteq> 0"
    and "valid_date (year t) (month t) (day t)" and "in_bounds t"
  shows "let a = int (day_of_year (year t) (month t) (day t)) - 1;
             x = \<lceil>real_of_int a / real_of_int n\<rceil> * n + 1;
             new = from_julian (year t) (nat x)
         in if 0 < a mod n then
              x \<le> int (days_in_year (year t)) \<longrightarrow>
                fst new = year t \<and>
                valid_date (year t) (fst (snd new)) (snd (snd new)) \<and>
                int (day_of_year (year t) (fst (snd new)) (snd (snd new))) = x \<and>
                realign lib self (Timestamp t) =
                  (if in_bounds (midnight new) then Inr (Timestamp (midnight new))
                   else Inl ValueError)
            else realign lib self (Timestamp t) = Inr (Timestamp t)"
proof -
  define a where "a = int (day_of_year (year t) (month t) (day t)) - 1"
  define x where "x = - ((- a) div n) * n + 1"
  note facts = realign_to_next [OF assms a_def x_def]
  have x: "\<lceil>real_of_int a / real_of_int n\<rceil> * n + 1 = x"
    by (simp only: x_def ceiling_divide_eq_div)
  have "if 0 < a mod n then
      x \<le> int (days_in_year (year t)) \<longrightarrow>
        fst (from_julian (year t) (nat x)) = year t \<and>
        valid_date (year t) (fst (snd (from_julian (year t) (nat x))))
          (snd (snd (from_julian (year t) (nat x)))) \<and>
        int (day_of_year (year t) (fst (snd (from_julian (year t) (nat x))))
          (snd (snd (from_julian (year t) (nat x))))) = x \<and>
        realign lib self (Timestamp t) =
          (if in_bounds (midnight (from_julian (year t) (nat x)))
           then Inr (Timestamp (midnight (from_julian (year t) (nat x))))
           else Inl ValueError)
    else realign lib self (Timestamp t) = Inr (Timestamp t)"
  proof (cases "0 < a mod n")
    case False
    with facts(1) show ?thesis by simp
  next
    case True
    show ?thesis
    proof (simp only: True if_True, intro impI)
      assume fits: "x \<le> int (days_in_year (year t))"
      from facts(3) [OF True fits] obtain mo d
        where "from_julian (year t) (nat x) = (year t, mo, d)" "valid_date (year t) mo d"
          "int (day_of_year (year t) mo d) = x"
        by blast
      with facts(2) [OF True fits]
      show "fst (from_julian (year t) (nat x)) = year t \<and>
        valid_date (year t) (fst (snd (from_julian (year t) (nat x))))
          (snd (snd (from_julian (year t) (nat x)))) \<and>
        int (day_of_year (year t) (fst (snd (from_julian (year t) (nat x))))
          (snd (snd (from_julian (year t) (nat x))))) = x \<and>
        realign lib self (Timestamp t) =
          (if in_bounds (midnight (from_julian (year t) (nat x)))
           then Inr (Timestamp (midnight (from_julian (year t) (nat x))))
           else Inl ValueError)"
        by simp
    qed
  qed
  then show ?thesis
    by (simp only: Let_def a_def [symmetric] x)
qed

theorem realign_start_witness:
  "\<not> exact_dates \<lparr>pattern = ''%Y-%m-%d'', start = ''01/07/2020 10:30:00'', end' = None,
      period = Some (''5'' @ ''D''), has_time = True, exact_dates = False, values' = []\<rparr> \<and>
   py_int (int_max_str_digits bare_library) ''5'' = Inr 5 \<and>
   valid_date 2020 1 7 \<and>
   in_bounds \<lparr>year = 2020, month = 1, day = 7, hour = 10, minute = 30, second = 0\<rparr> \<and>
   day_of_year 2020 1 7 = 7 \<and>
   realign bare_library \<lparr>pattern = ''%Y-%m-%d'', start = ''01/07/2020 10:30:00'',
      end' = None, period = Some (''5'' @ ''D''), has_time = True, exact_dates = False,
      values' = []\<rparr>
     (Timestamp \<lparr>year = 2020, month = 1, day = 7, hour = 10, minute = 30, second = 0\<rparr>)
   = Inr (Timestamp \<lparr>year = 2020, month = 1, day = 11, hour = 0, minute = 0, second = 0\<rparr>)"
proof -
  define self where "self = \<lparr>pattern = ''%Y-%m-%d'', start = ''01/07/2020 10:30:00'',
      end' = None, period = Some (''5'' @ ''D''), has_time = True, exact_dates = False,
      values' = []\<rparr>"
  define t where "t = \<lparr>year = 2020, month = 1, day = 7, hour = 10, minute = 30, second = 0\<rparr>"
  have h1: "\<not> exact_dates self" and h2: "period self = Some (''5'' @ ''D'')"
    by (simp_all add: self_def)
  have h3: "py_int (int_max_str_digits bare_library) ''5'' = Inr 5"
    by (simp add: python_defs char_defs bare_library_def)
  have h4: "(5::int) \<noteq> 0" by simp
  have h5: "valid_date (year t) (month t) (day t)"
    by (simp add: t_def calendar_defs)
  have h6: "in_bounds t"
    by (simp add: t_def timestamp_defs)
  have doy: "day_of_year 2020 1 7 = 7"
    by (simp add: calendar_defs upt_conv_Cons)
  have new: "from_julian 2020 11 = (2020, 1, 11)"
    by (simp add: calendar_defs add_days_step)
  have "in_bounds (midnight (2020, 1, 11))"
    by (simp add: timestamp_defs)
  with realign_start [OF h1 h2 h3 h4 h5 h6] doy new
  have "realign bare_library self (Timestamp t) = Inr (Timestamp (midnight (2020, 1, 11)))"
    by (simp add: Let_def t_def days_in_year_def is_leap_def)
  with h1 h2 h3 h5 h6 doy show ?thesis
    by (simp add: self_def t_def midnight_def)
qed

text \<open>
  Claim C2, as stated: with the period \<^verbatim>\<open>5D\<close> a start on day 7 of its year is
  realigned to day 6. On 7 January 2020 the code moves the start to 11 January, day 11
  of the year: \<open>ceil(6 / 5)\<close> is 2, and \<open>2 * 5 + 1 = 11\<close>.
\<close>

theorem day_7_counterexample:
  "day_of_year 2020 1 7 = 7 \<and>
   realign bare_library \<lparr>pattern = ''%Y-%m-%d'', start = ''01/07/2020'', end' = None,
      period = Some ''5D'', has_time = False, exact_dates = False, values' = []\<rparr>
     (Timestamp \<lparr>year = 2020, month = 1, day = 7, hour = 0, minute = 0, second = 0\<rparr>)
   = Inr (Timestamp \<lparr>year = 2020, month = 1, day = 11, hour = 0, minute = 0, second = 0\<rparr>) \<and>
   day_of_year 2020 1 11 = 11 \<and>
   \<lceil>real_of_int (7 - 1) / real_of_int 5\<rceil> * 5 + 1 = 11"
  by (simp add: eval_defs)

text \<open>
  Claim C2, amended: with \<open>exact_dates\<close> false and the period \<^verbatim>\<open>5D\<close>, a start date
  that falls on day 7 of its year is realigned to day 11 of the same year (at
  00:00:00), since \<open>(7 - 1) mod 5 = 1 > 0\<close> and \<open>ceil(6 / 5) * 5 + 1 = 11\<close>.
\<close>

theorem day_7_to_day_11:
  assumes "\<not> exact_dates self" and "period self = Some ''5D''"
    and "valid_date (year t) (month t) (day t)" and "in_bounds t"
    and "day_of_year (year t) (month t) (day t) = 7"
  shows "realign lib self (Timestamp t) = Inr (Timestamp (midnight (year t, 1, 11))) \<and>
    day_of_year (year t) 1 11 = 11"
proof -
  from assms(3) have "1 \<le> month t" "month t \<le> 12" by (simp_all add: valid_date_def)
  then have jan: "month t = 1 \<and> day t = 7"
    using assms(3,5)
    by (cases "month t" rule: month_cases)
      (auto simp: valid_date_def day_of_year_def days_before_month_def days_in_month_def
        upt_conv_Cons split: if_splits)
  with assms(4) have bounds: "in_bounds (midnight (year t, 1, 11))"
    by (auto simp: in_bounds_def ts_le_def ts_min_def ts_max_def midnight_def split: if_splits)
  have period: "period self = Some (''5'' @ ''D'')"
    using assms(2) by simp
  have magnitude: "py_int (int_max_str_digits lib) ''5'' = Inr 5"
    by (simp add: python_defs char_defs)
  have new: "from_julian (year t) 11 = (year t, 1, 11)"
    by (simp add: from_julian_def add_days_step next_day_def days_in_month_def)
  have "realign lib self (Timestamp t) =
      (if in_bounds (midnight (from_julian (year t) (nat 11)))
       then Inr (Timestamp (midnight (from_julian (year t) (nat 11)))) else Inl ValueError)"
    by (rule realign_to_next(2) [OF assms(1) period magnitude _ assms(3,4), of 6 11])
      (simp_all add: assms(5) days_in_year_def)
  with bounds new show ?thesis
    by (simp add: day_of_year_def days_before_month_def)
qed

theorem day_7_to_day_11_witness:
  "\<not> exact_dates \<lparr>pattern = ''%j'', start = ''01/07/2021'', end' = None,
      period = Some ''5D'', has_time = False, exact_dates = False, values' = []\<rparr> \<and>
   valid_date 2021 1 7 \<and>
   in_bounds \<lparr>year = 2021, month = 1, day = 7, hour = 0, minute = 0, second = 0\<rparr> \<and>
   day_of_year 2021 1 7 = 7 \<and>
   realign bare_library \<lparr>pattern = ''%j'', start = ''01/07/2021'', end' = None,
      period = Some ''5D'', has_time = False, exact_dates = False, values' = []\<rparr>
     (Timestamp \<lparr>year = 2021, month = 1, day = 7, hour = 0, minute = 0, second = 0\<rparr>)
   = Inr (Timestamp \<lparr>year = 2021, month = 1, day = 11, hour = 0, minute = 0, second = 0\<rparr>) \<and>
   day_of_year 2021 1 11 = 11"
proof -
  define self where "self = \<lparr>pattern = ''%j'', start = ''01/07/2021'', end' = None,
      period = Some ''5D'', has_time = False, exact_dates = False, values' = []\<rparr>"
  define t where "t = \<lparr>year = 2021, month = 1, day = 7, hour = 0, minute = 0, second = 0\<rparr>"
  have h1: "\<not> exact_dates self" and h2: "period self = Some ''5D''"
    by (simp_all add: self_def)
  have h3: "valid_date (year t) (month t) (day t)"
    by (simp add: t_def calendar_defs)
  have h4: "in_bounds t"
    by (simp add: t_def timestamp_defs)
  have h5: "day_of_year (year t) (month t) (day t) = 7"
    by (simp add: t_def calendar_defs upt_conv_Cons)
  from day_7_to_day_11 [OF h1 h2 h3 h4 h5, of bare_library] h1 h3 h4 h5
  show ?thesis
    by (simp add: self_def t_def midnight_def)
qed

section \<open>Periods the code cannot use\<close>

lemma py_int_error: "py_int md s = Inl e \<Longrightarrow> e = ValueError"
  by (auto simp: py_int_def Let_def split: option.splits if_splits)

lemma realign_fails:
  assumes "\<not> exact_dates self" and "period self = Some (m @ ''D'')"
    and "py_int (int_max_str_digits lib) m = Inl e \<or> py_int (int_max_str_digits lib) m = Inr 0"
  shows "\<exists>x. realign lib self start_date = Inl x"
proof (cases start_date)
  case NaT
  with assms(1,2) show ?thesis
    by (simp add: realign_def last_slice_def strftime_def)
next
  case (Timestamp t)
  with assms show ?thesis
    by (auto simp: realign_def last_slice_def but_last_slice_def strftime_def
        std_directive_def split: sum.splits)
qed

text \<open>
  Claim C8, as stated: a period whose magnitude is not a positive integer makes the
  generation step fail. With the period \<^verbatim>\<open>-5D\<close> and no end it does not: \<^verbatim>\<open>int\<close> reads
  -5, Python's \<open>2 % -5\<close> is -3, which is not positive, and the start date is formatted
  as it is.
\<close>

theorem negative_period_counterexample:
  "run_filter bare_library \<lparr>kw_pattern = Some ''%Y-%m-%d'', kw_start = Some ''01/03/2020'',
      kw_end = None, kw_period = Some ''-5D'', kw_has_time = None, kw_exact_dates = None\<rparr>
   = Inr [''2020-01-03'']"
  by (simp add: eval_defs)

text \<open>
  Claim C8, amended: for every configuration with \<open>exact_dates\<close> false whose period
  ends in \<^verbatim>\<open>D\<close> and whose magnitude, the text before the \<^verbatim>\<open>D\<close>, is zero or is not an
  integer literal as \<^verbatim>\<open>int\<close> reads it, the generation step fails rather than producing
  an output sequence. The error is the invalid-date error when the start or the end
  does not parse. Otherwise it is "Error applying DateTimeFilter" when the start is
  read as a missing value (\<^verbatim>\<open>NaT\<close>), and, when the start is read as a time stamp (a
  date that exists, within pandas' range), "Error applying DateTimeFilter" for a
  magnitude that is not an integer and "Unknown error applying DateTimeFilter" for
  zero.
\<close>

theorem unusable_day_period_fails:
  assumes "\<not> exact_dates self" and "period self = Some (m @ ''D'')"
    and "py_int (int_max_str_digits lib) m = Inl e \<or> py_int (int_max_str_digits lib) m = Inr 0"
  shows "(\<exists>err. DateTimeFilter_filter lib self = Inl err) \<and>
    (\<forall>x. parse_dates lib self = Inl x \<longrightarrow>
      DateTimeFilter_filter lib self = Inl InvalidDatesDetail \<or>
      DateTimeFilter_filter lib self = Inl InvalidDates) \<and>
    (\<forall>end_date. parse_dates lib self = Inr (NaT, end_date) \<longrightarrow>
      DateTimeFilter_filter lib self = Inl ErrorApplying) \<and>
    (\<forall>t end_date. parse_dates lib self = Inr (Timestamp t, end_date) \<and>
        valid_date (year t) (month t) (day t) \<and> in_bounds t \<longrightarrow>
      DateTimeFilter_filter lib self =
        Inl (if py_int (int_max_str_digits lib) m = Inr 0 then UnknownErrorApplying
             else ErrorApplying))"
proof (intro conjI allI impI)
  show "\<exists>err. DateTimeFilter_filter lib self = Inl err"
  proof (cases "parse_dates lib self")
    case (Inl x)
    then show ?thesis by (simp add: DateTimeFilter_filter_def)
  next
    case (Inr dates)
    obtain start_date end_date where dates: "dates = (start_date, end_date)"
      by (cases dates)
    from realign_fails [OF assms] obtain x where "realign lib self start_date = Inl x"
      by blast
    with Inr dates show ?thesis
      by (simp add: DateTimeFilter_filter_def generate_def)
  qed
next
  fix x
  assume "parse_dates lib self = Inl x"
  then show "DateTimeFilter_filter lib self = Inl InvalidDatesDetail \<or>
      DateTimeFilter_filter lib self = Inl InvalidDates"
    by (simp add: DateTimeFilter_filter_def date_failure_def)
next
  fix end_date
  assume "parse_dates lib self = Inr (NaT, end_date)"
  with assms(1,2) show "DateTimeFilter_filter lib self = Inl ErrorApplying"
    by (simp add: DateTimeFilter_filter_def generate_def realign_def last_slice_def
        strftime_def apply_failure_def)
next
  fix t end_date
  assume "parse_dates lib self = Inr (Timestamp t, end_date) \<and>
      valid_date (year t) (month t) (day t) \<and> in_bounds t"
  then have parsed: "parse_dates lib self = Inr (Timestamp t, end_date)"
    and valid: "valid_date (year t) (month t) (day t)" and bounds: "in_bounds t"
    by simp_all
  note step = realign_day_period [OF assms(1,2) valid bounds, of lib]
  from assms(3) show "DateTimeFilter_filter lib self =
      Inl (if py_int (int_max_str_digits lib) m = Inr 0 then UnknownErrorApplying
           else ErrorApplying)"
  proof
    assume failed: "py_int (int_max_str_digits lib) m = Inl e"
    then have "e = ValueError" by (rule py_int_error)
    with failed parsed show ?thesis
      by (simp add: DateTimeFilter_filter_def generate_def step apply_failure_def)
  next
    assume "py_int (int_max_str_digits lib) m = Inr 0"
    with parsed show ?thesis
      by (simp add: DateTimeFilter_filter_def generate_def step apply_failure_def)
  qed
qed

theorem unusable_day_period_fails_witness:
  "py_int (int_max_str_digits bare_library) ''0'' = Inr 0 \<and>
   DateTimeFilter_filter bare_library \<lparr>pattern = ''%Y-%m-%d'', start = ''01/03/2020'',
      end' = None, period = Some (''0'' @ ''D''), has_time = False, exact_dates = False,
      values' = []\<rparr> = Inl UnknownErrorApplying \<and>
   py_int (int_max_str_digits bare_library) ''1.5'' = Inl ValueError \<and>
   DateTimeFilter_filter bare_library \<lparr>pattern = ''%Y-%m-%d'', start = ''01/03/2020'',
      end' = None, period = Some (''1.5'' @ ''D''), has_time = False, exact_dates = False,
      values' = []\<rparr> = Inl ErrorApplying \<and>
   py_int (int_max_str_digits bare_library) [CHR 0x1C, CHR ''0''] = Inl ValueError \<and>
   DateTimeFilter_filter bare_library \<lparr>pattern = ''%Y-%m-%d'', start = ''01/03/2020'',
      end' = None, period = Some ([CHR 0x1C, CHR ''0''] @ ''D''), has_time = False,
      exact_dates = False, values' = []\<rparr> = Inl ErrorApplying \<and>
   DateTimeFilter_filter (bare_library\<lparr>lib_to_datetime := \<lambda>s fmt. Inr NaT\<rparr>)
     \<lparr>pattern = ''%Y-%m-%d'', start = '''', end' = None, period = Some (''0'' @ ''D''),
      has_time = False, exact_dates = False, values' = []\<rparr> = Inl ErrorApplying \<and>
   DateTimeFilter_filter bare_library \<lparr>pattern = ''%Y-%m-%d'', start = ''13/45/2020'',
      end' = None, period = Some (''0'' @ ''D''), has_time = False, exact_dates = False,
      values' = []\<rparr> = Inl InvalidDatesDetail"
proof -
  define zero where "zero = \<lparr>pattern = ''%Y-%m-%d'', start = ''01/03/2020'',
      end' = None, period = Some (''0'' @ ''D''), has_time = False, exact_dates = False,
      values' = []\<rparr>"
  define frac where "frac = \<lparr>pattern = ''%Y-%m-%d'', start = ''01/03/2020'',
      end' = None, period = Some (''1.5'' @ ''D''), has_time = False, exact_dates = False,
      values' = []\<rparr>"
  define sep where "sep = \<lparr>pattern = ''%Y-%m-%d'', start = ''01/03/2020'',
      end' = None, period = Some ([CHR 0x1C, CHR ''0''] @ ''D''), has_time = False,
      exact_dates = False, values' = []\<rparr>"
  define missing where "missing = \<lparr>pattern = ''%Y-%m-%d'', start = '''', end' = None,
      period = Some (''0'' @ ''D''), has_time = False, exact_dates = False, values' = []\<rparr>"
  define month_13 where "month_13 = \<lparr>pattern = ''%Y-%m-%d'', start = ''13/45/2020'',
      end' = None, period = Some (''0'' @ ''D''), has_time = False, exact_dates = False,
      values' = []\<rparr>"
  define reads_nat where "reads_nat = bare_library\<lparr>lib_to_datetime := \<lambda>s fmt. Inr NaT\<rparr>"
  define t where "t = \<lparr>year = 2020, month = 1, day = 3, hour = 0, minute = 0, second = 0\<rparr>"
  have z: "py_int (int_max_str_digits bare_library) ''0'' = Inr 0"
    and f: "py_int (int_max_str_digits bare_library) ''1.5'' = Inl ValueError"
    and s: "py_int (int_max_str_digits bare_library) [CHR 0x1C, CHR ''0''] = Inl ValueError"
    and z': "py_int (int_max_str_digits reads_nat) ''0'' = Inr 0"
    by (simp_all add: python_defs char_defs bare_library_def reads_nat_def)
  have parsed: "parse_dates bare_library zero = Inr (Timestamp t, None)"
    "parse_dates bare_library frac = Inr (Timestamp t, None)"
    "parse_dates bare_library sep = Inr (Timestamp t, None)"
    by (simp_all add: zero_def frac_def sep_def t_def parse_dates_def date_format_def parse_defs
        char_defs calendar_defs timestamp_defs upt_conv_Cons)
  have no_start: "parse_dates reads_nat missing = Inr (NaT, None)"
    by (simp add: missing_def reads_nat_def parse_dates_def to_datetime_def nat_strings_def)
  have no_month: "parse_dates bare_library month_13 = Inl ValueError"
    by (simp add: month_13_def parse_dates_def date_format_def to_datetime_def nat_strings_def
        parse_fields_def match_items.simps dir_alts_def is_space_def)
  have t: "valid_date (year t) (month t) (day t)" "in_bounds t"
    by (simp_all add: t_def calendar_defs timestamp_defs)
  have "DateTimeFilter_filter bare_library zero = Inl UnknownErrorApplying"
    using unusable_day_period_fails [of zero "''0''" bare_library ValueError] z parsed(1) t
    by (simp add: zero_def)
  moreover have "DateTimeFilter_filter bare_library frac = Inl ErrorApplying"
    using unusable_day_period_fails [of frac "''1.5''" bare_library ValueError] f parsed(2) t
    by (simp add: frac_def)
  moreover have "DateTimeFilter_filter bare_library sep = Inl ErrorApplying"
    using unusable_day_period_fails [of sep "[CHR 0x1C, CHR ''0'']" bare_library ValueError]
      s parsed(3) t
    by (simp add: sep_def)
  moreover have "DateTimeFilter_filter reads_nat missing = Inl ErrorApplying"
    using unusable_day_period_fails [of missing "''0''" reads_nat ValueError] z' no_start
    by (simp add: missing_def)
  moreover have "DateTimeFilter_filter bare_library month_13 = Inl InvalidDatesDetail"
    using no_month by (simp add: DateTimeFilter_filter_def date_failure_def)
  ultimately show ?thesis
    using z f s
    by (simp add: zero_def frac_def sep_def missing_def month_13_def reads_nat_def)
qed

section \<open>Dates that do not parse\<close>

text \<open>
  Claim C7, as stated: every start string that does not exactly match \<^verbatim>\<open>mm/dd/yyyy\<close>
  makes the generation step fail with the invalid-date error. The start \<^verbatim>\<open>1/1/2020\<close>
  does not have that form, and is parsed: \<^verbatim>\<open>%m\<close> and \<^verbatim>\<open>%d\<close> accept a single digit.
\<close>

theorem unpadded_date_counterexample:
  "\<not> spec_format False ''1/1/2020'' \<and>
   run_filter bare_library \<lparr>kw_pattern = Some ''%Y-%m-%d'', kw_start = Some ''1/1/2020'',
      kw_end = None, kw_period = None, kw_has_time = None, kw_exact_dates = Some True\<rparr>
   = Inr [''2020-01-01'']"
  by (simp add: spec_format_def eval_defs)

text \<open>
  Claim C7, amended: for every start (or present end) string, other than the empty
  string and pandas' literals for a missing value, that does not match the
  \<open>has_time\<close>-selected format \<^verbatim>\<open>%m/%d/%Y\<close> or \<^verbatim>\<open>%m/%d/%Y %H:%M:%S\<close> in full as
  \<^verbatim>\<open>strptime\<close> reads it (the month, day, hour, minute and second with one or two
  digits), or that matches with a second below 60 and denotes a date that does not
  exist or a time stamp outside pandas' range, the generation step fails with the
  invalid-date error rather than producing any output.
\<close>

theorem unparsable_date_fails:
  assumes "s = start self \<or> end' self = Some s"
    and "s \<notin> set nat_strings"
    and "parse_fields (date_format (has_time self)) s = None \<or>
      (\<exists>f. parse_fields (date_format (has_time self)) s = Some f \<and> f_second f < 60 \<and>
        ((\<exists>e. fields_date f = Inl e) \<or>
         (\<exists>ymd. fields_date f = Inr ymd \<and> \<not> in_bounds (fields_timestamp f ymd))))"
  shows "(DateTimeFilter_filter lib self = Inl InvalidDatesDetail \<or>
      DateTimeFilter_filter lib self = Inl InvalidDates) \<and>
    (s = start self \<longrightarrow> DateTimeFilter_filter lib self = Inl InvalidDatesDetail)"
proof -
  have fmt: "compile_format (date_format (has_time self)) \<noteq> None"
    by (simp add: date_format_def dir_alts_def is_space_def)
  have "fields_date f = Inl e \<Longrightarrow> e = ValueError" for f e
    by (auto simp: fields_date_def split: option.splits if_splits)
  with assms(2,3) fmt
  have rejected: "to_datetime lib s (date_format (has_time self)) = Inl ValueError"
    by (auto simp: to_datetime_def)
  have "DateTimeFilter_filter lib self = Inl InvalidDatesDetail" if "s = start self"
    using that rejected by (simp add: DateTimeFilter_filter_def parse_dates_def date_failure_def)
  moreover have "DateTimeFilter_filter lib self = Inl InvalidDatesDetail \<or>
      DateTimeFilter_filter lib self = Inl InvalidDates" if "end' self = Some s"
    using that rejected
    by (auto simp: DateTimeFilter_filter_def parse_dates_def date_failure_def split: sum.splits)
  ultimately show ?thesis
    using assms(1) by blast
qed

theorem unparsable_date_fails_witness:
  "''13/45/2020'' \<notin> set nat_strings \<and>
   parse_fields (date_format False) ''13/45/2020'' = None \<and>
   DateTimeFilter_filter bare_library \<lparr>pattern = ''%Y-%m-%d'', start = ''13/45/2020'',
      end' = None, period = None, has_time = False, exact_dates = True, values' = []\<rparr>
   = Inl InvalidDatesDetail \<and>
   ''02/30/2020'' \<notin> set nat_strings \<and>
   parse_fields (date_format False) ''02/30/2020'' = Some \<lparr>f_year = 2020, f_month = 2,
      f_day = 30, f_hour = 0, f_minute = 0, f_second = 0, f_julian = None\<rparr> \<and>
   fields_date \<lparr>f_year = 2020, f_month = 2, f_day = 30, f_hour = 0, f_minute = 0,
      f_second = 0, f_julian = None\<rparr> = Inl ValueError \<and>
   DateTimeFilter_filter bare_library \<lparr>pattern = ''%Y-%m-%d'', start = ''01/01/2020'',
      end' = Some ''02/30/2020'', period = Some ''5D'', has_time = False, exact_dates = True,
      values' = []\<rparr>
   = Inl InvalidDatesDetail"
proof -
  define self where "self = \<lparr>pattern = ''%Y-%m-%d'', start = ''13/45/2020'',
      end' = None, period = None, has_time = False, exact_dates = True, values' = []\<rparr>"
  have h1: "''13/45/2020'' = start self \<or> end' self = Some ''13/45/2020''"
    by (simp add: self_def)
  have h2: "''13/45/2020'' \<notin> set nat_strings"
    by (simp add: nat_strings_def)
  have h3: "parse_fields (date_format (has_time self)) ''13/45/2020'' = None"
    by (simp add: self_def date_format_def parse_fields_def match_items.simps dir_alts_def
        is_space_def)
  note month_13 = unparsable_date_fails [OF h1 h2 disjI1 [OF h3], of bare_library]
  define other where "other = \<lparr>pattern = ''%Y-%m-%d'', start = ''01/01/2020'',
      end' = Some ''02/30/2020'', period = Some ''5D'', has_time = False, exact_dates = True,
      values' = []\<rparr>"
  define f where "f = \<lparr>f_year = 2020, f_month = 2, f_day = 30, f_hour = 0, f_minute = 0,
      f_second = 0, f_julian = None\<rparr>"
  have k1: "''02/30/2020'' = start other \<or> end' other = Some ''02/30/2020''"
    by (simp add: other_def)
  have k2: "''02/30/2020'' \<notin> set nat_strings"
    by (simp add: nat_strings_def)
  have k3: "parse_fields (date_format (has_time other)) ''02/30/2020'' = Some f"
    by (simp add: other_def f_def date_format_def parse_fields_def match_items.simps
        dir_alts_def is_space_def set_field_def default_fields_def group_int_def char_defs)
  have k4: "fields_date f = Inl ValueError"
    by (simp add: f_def fields_date_def calendar_defs)
  have "parse_fields (date_format (has_time other)) ''02/30/2020'' = None \<or>
      (\<exists>f. parse_fields (date_format (has_time other)) ''02/30/2020'' = Some f \<and>
        f_second f < 60 \<and>
        ((\<exists>e. fields_date f = Inl e) \<or>
         (\<exists>ymd. fields_date f = Inr ymd \<and> \<not> in_bounds (fields_timestamp f ymd))))"
    using k3 k4 by (auto simp: f_def)
  note day_30 = unparsable_date_fails [OF k1 k2 this, of bare_library]
  have start_ok: "to_datetime bare_library ''01/01/2020'' ''%m/%d/%Y'' =
      Inr (Timestamp \<lparr>year = 2020, month = 1, day = 1, hour = 0, minute = 0, second = 0\<rparr>)"
    by (simp add: parse_defs char_defs calendar_defs timestamp_defs upt_conv_Cons)
  have "to_datetime bare_library ''02/30/2020'' ''%m/%d/%Y'' = Inl ValueError"
    using k2 k3 k4
    by (simp add: to_datetime_def other_def date_format_def is_space_def dir_alts_def f_def)
  with start_ok have "DateTimeFilter_filter bare_library other \<noteq> Inl InvalidDates"
    by (simp add: DateTimeFilter_filter_def parse_dates_def other_def date_format_def
        date_failure_def)
  with month_13 day_30 h2 h3 k2 k3 k4 show ?thesis
    by (simp add: self_def other_def f_def)
qed

end
